theory Spec2Isabelle
  imports Complex_Main "HOL-Library.Sublist" "HOL-Library.Char_ord"
begin

section \<open>Time\<close>

text \<open>
  A JavaScript \<open>Date\<close> is modelled by its \<open>getTime()\<close> value: an integer number of
  milliseconds. The calendar functions of the source (\<open>format(d, 'yyyy-MM-dd')\<close>,
  \<open>isToday\<close>, \<open>startOfDay\<close>, \<open>getHours\<close>, \<open>getMinutes\<close>) all read the local
  wall clock, so the time line of the model is local time counted from a local midnight,
  with days of exactly 24 hours.
\<close>

type_synonym timestamp = int

definition msPerMinute :: int where
  "msPerMinute = 1000 * 60"

definition msPerDay :: int where
  "msPerDay = 24 * 60 * 60 * 1000"

definition dayOf :: "timestamp \<Rightarrow> int" where
  \<comment> \<open>the calendar day that \<open>format(d, 'yyyy-MM-dd')\<close> names\<close>
  "dayOf t = t div msPerDay"

definition startOfDay :: "timestamp \<Rightarrow> timestamp" where
  "startOfDay t = dayOf t * msPerDay"

definition getHours :: "timestamp \<Rightarrow> int" where
  "getHours t = (t div (60 * msPerMinute)) mod 24"

definition getMinutes :: "timestamp \<Rightarrow> int" where
  "getMinutes t = (t div msPerMinute) mod 60"

definition js_round :: "rat \<Rightarrow> int" where
  \<comment> \<open>\<open>Math.round\<close>: nearest integer, a half rounds towards plus infinity\<close>
  "js_round x = \<lfloor>x + 1 / 2\<rfloor>"

section \<open>Data model (types.ts)\<close>

text \<open>
  Of \<open>Activity\<close> the fields that the tracker reads are kept; \<open>id\<close>, \<open>userId\<close>,
  \<open>type\<close>, \<open>pointsBreakdown\<close>, \<open>source\<close>, \<open>triggeredBy\<close>, \<open>teamId\<close> and
  \<open>challengeId\<close> are written once by \<open>recordActivity\<close> and never read.
\<close>

record activity =
  exerciseId :: string
  exerciseName :: string
  duration :: int
  caloriesBurned :: int
  pointsEarned :: int
  startedAt :: timestamp
  completedAt :: timestamp
  createdAt :: timestamp

record user_stats =
  healthScore :: int
  streak :: int
  longestStreak :: int
  totalExercises :: int
  totalExerciseTime :: int
  totalPoints :: int
  availablePoints :: int
  level :: int
  xp :: int

definition defaultStats :: user_stats where
  \<comment> \<open>the default of \<open>loadStats\<close> and \<open>loadUserStats\<close>\<close>
  "defaultStats = \<lparr>healthScore = 100, streak = 0, longestStreak = 0, totalExercises = 0,
     totalExerciseTime = 0, totalPoints = 0, availablePoints = 0, level = 1, xp = 0\<rparr>"

section \<open>Activity store (HealthTracker.saveActivity)\<close>

definition js_splice_head :: "nat \<Rightarrow> 'a list \<Rightarrow> 'a list" where
  \<comment> \<open>\<open>xs.splice(0, n)\<close>: what is left in \<open>xs\<close>\<close>
  "js_splice_head n xs = drop n xs"

definition saveActivity :: "activity list \<Rightarrow> activity \<Rightarrow> activity list" where
  "saveActivity stored a =
     (let activities = stored @ [a]
      in if length activities > 1000
         then js_splice_head (length activities - 1000) activities
         else activities)"

section \<open>Level table (constants/achievements.ts)\<close>

record level_entry =
  lv_level :: int
  lv_name :: string
  xpRequired :: int

definition LEVELS :: "level_entry list" where
  "LEVELS =
    [\<lparr>lv_level = 1, lv_name = ''Code Newbie'', xpRequired = 0\<rparr>,
     \<lparr>lv_level = 2, lv_name = ''Alert Coder'', xpRequired = 100\<rparr>,
     \<lparr>lv_level = 3, lv_name = ''Stretch Master'', xpRequired = 250\<rparr>,
     \<lparr>lv_level = 5, lv_name = ''Healthy Coder'', xpRequired = 500\<rparr>,
     \<lparr>lv_level = 10, lv_name = ''Wellness Warrior'', xpRequired = 1500\<rparr>,
     \<lparr>lv_level = 15, lv_name = ''Balance Champion'', xpRequired = 3000\<rparr>,
     \<lparr>lv_level = 20, lv_name = ''Zen Master'', xpRequired = 5000\<rparr>,
     \<lparr>lv_level = 30, lv_name = ''Health Guru'', xpRequired = 10000\<rparr>,
     \<lparr>lv_level = 50, lv_name = ''Immortal Developer'', xpRequired = 25000\<rparr>]"

fun findCurrentLevel_loop :: "level_entry list \<Rightarrow> nat \<Rightarrow> int \<Rightarrow> int" where
  \<comment> \<open>the second argument is \<open>i + 1\<close> for the loop index \<open>i\<close>, which runs down to 0\<close>
  "findCurrentLevel_loop ls 0 x = 1"
| "findCurrentLevel_loop ls (Suc i) x =
     (if x \<ge> xpRequired (ls ! i) then lv_level (ls ! i)
      else findCurrentLevel_loop ls i x)"

definition findCurrentLevel :: "int \<Rightarrow> int" where
  "findCurrentLevel x = findCurrentLevel_loop LEVELS (length LEVELS) x"


section \<open>Health tracker (services/HealthTracker.ts)\<close>

text \<open>
  The tracker owns the stored activity log (storage key \<open>activities\<close>) and its copy of
  the user statistics. Every \<open>new Date()\<close> of one call is the one instant \<open>now\<close>.
\<close>

record tracker =
  activities :: "activity list"
  currentStats :: user_stats

record daily_metrics =
  codingTime :: int
  breaksTaken :: int
  breaksRecommended :: int
  exerciseDuration :: int
  dm_caloriesBurned :: int
  dm_healthScore :: int
  longestSittingStreak :: int

definition getActivitiesForDate :: "activity list \<Rightarrow> timestamp \<Rightarrow> activity list" where
  "getActivitiesForDate stored date = filter (\<lambda>a. dayOf (createdAt a) = dayOf date) stored"

fun sittingLoop :: "activity list \<Rightarrow> rat \<times> rat \<times> timestamp \<Rightarrow> rat \<times> rat \<times> timestamp" where
  \<comment> \<open>the \<open>for\<close> loop; the state is (longestStreak, currentStreak, lastActivityTime) of the source\<close>
  "sittingLoop [] st = st"
| "sittingLoop (a # rest) (longest, current, lastTime) =
     (let gap = startedAt a - lastTime;
          gapMinutes = of_int gap / of_int msPerMinute;
          current1 = current + gapMinutes;
          longest1 = max longest current1
      in sittingLoop rest (longest1, 0, completedAt a))"

definition calculateLongestSittingStreak :: "activity list \<Rightarrow> timestamp \<Rightarrow> int" where
  \<comment> \<open>\<open>Array.sort\<close> is stable, as \<open>sort_key\<close> is\<close>
  "calculateLongestSittingStreak acts now =
     (if length acts = 0 then 480
      else
        let sortedActivities = sort_key completedAt acts;
            (longest, current, lastTime) =
               sittingLoop sortedActivities (0, 0, startOfDay now);
            finalGap = of_int (now - lastTime) / of_int msPerMinute;
            current1 = current + finalGap;
            longest1 = max longest current1
        in js_round longest1)"

definition calculateDailyMetrics :: "user_stats \<Rightarrow> activity list \<Rightarrow> timestamp \<Rightarrow> daily_metrics" where
  "calculateDailyMetrics stats acts now =
     (let totalDuration = foldl (\<lambda>sum a. sum + duration a) 0 acts;
          totalCalories = foldl (\<lambda>sum a. sum + caloriesBurned a) 0 acts;
          codingTime = 480;
          recommended = codingTime div 60
      in \<lparr>codingTime = codingTime,
          breaksTaken = int (length acts),
          breaksRecommended = recommended,
          exerciseDuration = totalDuration div 60,
          dm_caloriesBurned = totalCalories,
          dm_healthScore = healthScore stats,
          longestSittingStreak = calculateLongestSittingStreak acts now\<rparr>)"

definition breakPenalty :: "daily_metrics \<Rightarrow> int" where
  \<comment> \<open>Factor 1. The quotient is a multiple of 1/8, which a double holds exactly\<close>
  "breakPenalty dm =
     (let breakRatio :: rat =
            (if breaksRecommended dm > 0
             then of_int (breaksTaken dm) / of_int (breaksRecommended dm) else 0)
      in if breakRatio < 5 / 10 then 40
         else if breakRatio < 7 / 10 then 20
         else if breakRatio < 9 / 10 then 10
         else 0)"

definition sittingPenalty :: "daily_metrics \<Rightarrow> int" where
  "sittingPenalty dm =
     (if longestSittingStreak dm > 120 then 30
      else if longestSittingStreak dm > 90 then 20
      else if longestSittingStreak dm > 60 then 10
      else 0)"

definition durationPenalty :: "daily_metrics \<Rightarrow> int" where
  "durationPenalty dm =
     (if exerciseDuration dm < 10 then 15
      else if exerciseDuration dm < 20 then 8
      else 0)"

definition varietyPenalty :: "activity list \<Rightarrow> int" where
  "varietyPenalty today =
     (let uniqueExercises = card (set (map exerciseId today))
      in if uniqueExercises < 2 then 15
         else if uniqueExercises < 3 then 8
         else 0)"

definition calculateHealthScore :: "tracker \<Rightarrow> timestamp \<Rightarrow> int" where
  "calculateHealthScore tr now =
     (let today = getActivitiesForDate (activities tr) now;
          dailyMetrics = calculateDailyMetrics (currentStats tr) today now;
          score = 100 - breakPenalty dailyMetrics - sittingPenalty dailyMetrics
                      - durationPenalty dailyMetrics - varietyPenalty today
      in max 0 (min 100 (js_round (of_int score))))"

definition updateHealthScore :: "timestamp \<Rightarrow> tracker \<Rightarrow> tracker" where
  "updateHealthScore now tr =
     tr\<lparr>currentStats := (currentStats tr)\<lparr>healthScore := calculateHealthScore tr now\<rparr>\<rparr>"

definition streakTransition :: "bool \<Rightarrow> bool \<Rightarrow> user_stats \<Rightarrow> user_stats" where
  \<comment> \<open>the body of \<open>updateStreak\<close> after its two flags are computed\<close>
  "streakTransition hasActivityToday hasActivityYesterday stats =
     (if hasActivityToday then
        let s1 = (if hasActivityYesterday \<or> streak stats = 0
                  then stats\<lparr>streak := streak stats + 1\<rparr> else stats)
        in if streak s1 > longestStreak s1 then s1\<lparr>longestStreak := streak s1\<rparr> else s1
      else if \<not> hasActivityYesterday \<and> streak stats > 0 then stats\<lparr>streak := 0\<rparr>
      else stats)"

definition updateStreak :: "timestamp \<Rightarrow> tracker \<Rightarrow> tracker" where
  "updateStreak now tr =
     (let yesterday = now - msPerDay;
          hasActivityToday = list_ex (\<lambda>a. dayOf (createdAt a) = dayOf now) (activities tr);
          hasActivityYesterday =
            list_ex (\<lambda>a. dayOf (createdAt a) = dayOf yesterday) (activities tr)
      in tr\<lparr>currentStats :=
              streakTransition hasActivityToday hasActivityYesterday (currentStats tr)\<rparr>)"

definition calculateBasePoints :: "int \<Rightarrow> int" where
  "calculateBasePoints d = (if d \<le> 60 then 5 else if d \<le> 180 then 15 else 30)"

definition calculatePoints :: "int \<Rightarrow> int" where
  "calculatePoints d = calculateBasePoints d"

definition updateStats :: "activity \<Rightarrow> timestamp \<Rightarrow> tracker \<Rightarrow> tracker" where
  "updateStats a now tr =
     (let st = currentStats tr;
          st1 = st\<lparr>totalExercises := totalExercises st + 1,
                   totalExerciseTime := totalExerciseTime st + duration a div 60,
                   totalPoints := totalPoints st + pointsEarned a,
                   availablePoints := availablePoints st + pointsEarned a\<rparr>
      in updateStreak now (tr\<lparr>currentStats := st1\<rparr>))"

text \<open>
  \<open>Partial<Activity>\<close>: every field may be missing. \<open>x || d\<close> on a missing field gives the
  default; on a present number or string it gives the field (0 and the empty string are
  their own defaults).
\<close>

record partial_activity =
  p_exerciseId :: "string option"
  p_exerciseName :: "string option"
  p_duration :: "int option"
  p_caloriesBurned :: "int option"
  p_startedAt :: "timestamp option"
  p_completedAt :: "timestamp option"

definition orDefault :: "'a option \<Rightarrow> 'a \<Rightarrow> 'a" where
  "orDefault x d = (case x of None \<Rightarrow> d | Some v \<Rightarrow> v)"

definition fullActivity :: "partial_activity \<Rightarrow> timestamp \<Rightarrow> activity" where
  "fullActivity p now =
     \<lparr>exerciseId = orDefault (p_exerciseId p) [],
      exerciseName = orDefault (p_exerciseName p) [],
      duration = orDefault (p_duration p) 0,
      caloriesBurned = orDefault (p_caloriesBurned p) 0,
      pointsEarned = calculatePoints (orDefault (p_duration p) 0),
      startedAt = orDefault (p_startedAt p) now,
      completedAt = orDefault (p_completedAt p) now,
      createdAt = now\<rparr>"

definition recordActivity :: "partial_activity \<Rightarrow> timestamp \<Rightarrow> tracker \<Rightarrow> tracker" where
  "recordActivity p now tr =
     (let a = fullActivity p now;
          tr1 = tr\<lparr>activities := saveActivity (activities tr) a\<rparr>;
          tr2 = updateStats a now tr1
      in updateHealthScore now tr2)"

section \<open>Exercises and achievements (types.ts, constants)\<close>

datatype category = OneMin | ThreeMin | FiveMin | Targeted

record exercise_step =
  instruction :: string
  step_duration :: int

text \<open>
  Of \<open>Exercise\<close> the fields read by the services; \<open>benefits\<close>, \<open>targetIssues\<close>,
  \<open>difficulty\<close>, \<open>equipment\<close>, \<open>animation\<close> and \<open>voiceGuidance\<close> only feed the
  picker's labels.
\<close>

record exercise =
  ex_id :: string
  ex_name :: string
  ex_category :: category
  ex_duration :: int
  steps :: "exercise_step list"
  caloriesBurn :: int

datatype req_type = ReqStreak | ReqCount | ReqTimeBased | ReqSpeed | ReqSocial

datatype day_time = Morning | Afternoon | Evening | Night

record requirement =
  rq_type :: req_type
  rq_target :: "int option"
  rq_days :: "int option"
  rq_count :: "int option"
  rq_time :: "day_time option"
  rq_action :: "string option"

record achievement =
  ach_id :: string
  ach_name :: string
  ach_requirement :: requirement
  reward_xp :: int

definition mkRequirement :: "req_type \<Rightarrow> requirement" where
  \<comment> \<open>an object literal that sets \<open>type\<close> only\<close>
  "mkRequirement t = \<lparr>rq_type = t, rq_target = None, rq_days = None, rq_count = None,
     rq_time = None, rq_action = None\<rparr>"

definition ACHIEVEMENTS :: "achievement list" where
  "ACHIEVEMENTS =
    [\<lparr>ach_id = ''streak_7'', ach_name = ''Week Warrior'',
      ach_requirement = (mkRequirement ReqStreak)\<lparr>rq_days := Some 7\<rparr>, reward_xp = 100\<rparr>,
     \<lparr>ach_id = ''streak_30'', ach_name = ''Monthly Master'',
      ach_requirement = (mkRequirement ReqStreak)\<lparr>rq_days := Some 30\<rparr>, reward_xp = 500\<rparr>,
     \<lparr>ach_id = ''streak_100'', ach_name = ''Century Club'',
      ach_requirement = (mkRequirement ReqStreak)\<lparr>rq_days := Some 100\<rparr>, reward_xp = 2000\<rparr>,
     \<lparr>ach_id = ''breaks_100'', ach_name = ''Break Master'',
      ach_requirement = (mkRequirement ReqCount)\<lparr>rq_action := Some ''break'', rq_count := Some 100\<rparr>,
      reward_xp = 150\<rparr>,
     \<lparr>ach_id = ''exercises_500'', ach_name = ''Exercise Enthusiast'',
      ach_requirement = (mkRequirement ReqCount)\<lparr>rq_action := Some ''exercise'', rq_count := Some 500\<rparr>,
      reward_xp = 800\<rparr>,
     \<lparr>ach_id = ''morning_7'', ach_name = ''Morning Glory'',
      ach_requirement = (mkRequirement ReqTimeBased)\<lparr>rq_time := Some Morning, rq_days := Some 7\<rparr>,
      reward_xp = 200\<rparr>,
     \<lparr>ach_id = ''night_owl'', ach_name = ''Night Owl Health'',
      ach_requirement = (mkRequirement ReqTimeBased)\<lparr>rq_time := Some Night, rq_count := Some 10\<rparr>,
      reward_xp = 300\<rparr>]"

record quest_task =
  task_id :: string
  task_target :: int
  task_current :: int
  task_xp :: int
  task_completed :: bool

record daily_quest =
  quest_date :: timestamp
  quest_tasks :: "quest_task list"
  quest_totalXP :: int
  quest_completed :: bool

section \<open>Gamification (GamificationService)\<close>

record gamification =
  userStats :: user_stats
  unlockedAchievements :: "string list"
  dailyQuest :: "daily_quest option"

record award_result =
  xpEarned :: int
  awardedPoints :: int
  leveledUp :: bool
  newLevel :: "int option"
  newAchievements :: "achievement list"

definition baseXP :: "(category \<times> int) list" where
  \<comment> \<open>the same table serves \<open>calculateExerciseXP\<close> and \<open>calculateExercisePoints\<close>\<close>
  "baseXP = [(OneMin, 5), (ThreeMin, 15), (FiveMin, 30), (Targeted, 20)]"

definition calculateExerciseXP :: "exercise \<Rightarrow> int" where
  "calculateExerciseXP e = orDefault (map_of baseXP (ex_category e)) 10"

definition calculateBonusXP :: "timestamp \<Rightarrow> user_stats \<Rightarrow> int" where
  "calculateBonusXP now stats =
     (let hour = getHours now;
          bonus = (if hour \<ge> 6 \<and> hour < 8 then 5 else 0)
      in if streak stats \<ge> 7 then bonus + (streak stats div 7) * 2 else bonus)"

definition calculateExercisePoints :: "bool \<Rightarrow> exercise \<Rightarrow> user_stats \<Rightarrow> int" where
  \<comment> \<open>\<open>enabled\<close> is the setting \<open>gamification.enabled\<close>; on the table's values the
      double product \<open>points * 1.1\<close> has the floor of the exact one\<close>
  "calculateExercisePoints enabled e stats =
     (let points = orDefault (map_of baseXP (ex_category e)) 10
      in if enabled then
           (if streak stats \<ge> 7 then \<lfloor>(of_int points :: rat) * (11 / 10)\<rfloor> else points)
         else points)"

definition checkAndHandleLevelUp :: "user_stats \<Rightarrow> user_stats \<times> bool" where
  "checkAndHandleLevelUp stats =
     (let currentLevel = findCurrentLevel (xp stats)
      in if currentLevel > level stats then (stats\<lparr>level := currentLevel\<rparr>, True)
         else (stats, False))"

definition checkTimeBasedAchievement :: "requirement \<Rightarrow> timestamp \<Rightarrow> bool" where
  "checkTimeBasedAchievement req now =
     (let hour = getHours now
      in if rq_time req = Some Morning then hour \<ge> 6 \<and> hour < 10
         else if rq_time req = Some Night then hour \<ge> 22 \<or> hour < 6
         else False)"

definition checkAchievementRequirement :: "achievement \<Rightarrow> timestamp \<Rightarrow> user_stats \<Rightarrow> bool" where
  "checkAchievementRequirement ach now stats =
     (let req = ach_requirement ach
      in case rq_type req of
           ReqStreak \<Rightarrow> streak stats \<ge> orDefault (rq_days req) 0
         | ReqCount \<Rightarrow>
             (if rq_action req = Some ''break'' \<or> rq_action req = Some ''exercise''
              then totalExercises stats \<ge> orDefault (rq_count req) 0
              else False)
         | ReqTimeBased \<Rightarrow> checkTimeBasedAchievement req now
         | _ \<Rightarrow> False)"

fun checkAchievementsLoop ::
  "achievement list \<Rightarrow> timestamp \<Rightarrow> gamification \<times> achievement list
     \<Rightarrow> gamification \<times> achievement list" where
  "checkAchievementsLoop [] now st = st"
| "checkAchievementsLoop (ach # rest) now (gs, new) =
     (if ach_id ach \<in> set (unlockedAchievements gs) then checkAchievementsLoop rest now (gs, new)
      else if checkAchievementRequirement ach now (userStats gs) then
        checkAchievementsLoop rest now
          (gs\<lparr>unlockedAchievements := unlockedAchievements gs @ [ach_id ach],
              userStats := (userStats gs)\<lparr>xp := xp (userStats gs) + reward_xp ach\<rparr>\<rparr>,
           new @ [ach])
      else checkAchievementsLoop rest now (gs, new))"

definition checkAchievements :: "timestamp \<Rightarrow> gamification \<Rightarrow> gamification \<times> achievement list" where
  "checkAchievements now gs = checkAchievementsLoop ACHIEVEMENTS now (gs, [])"

definition generateDailyQuest :: "timestamp \<Rightarrow> daily_quest" where
  "generateDailyQuest today =
     (let tasks =
        [\<lparr>task_id = ''task_breaks'', task_target = 8, task_current = 0, task_xp = 40,
          task_completed = False\<rparr>,
         \<lparr>task_id = ''task_5min'', task_target = 1, task_current = 0, task_xp = 30,
          task_completed = False\<rparr>,
         \<lparr>task_id = ''task_eyes'', task_target = 3, task_current = 0, task_xp = 20,
          task_completed = False\<rparr>,
         \<lparr>task_id = ''task_variety'', task_target = 3, task_current = 0, task_xp = 50,
          task_completed = False\<rparr>]
      in \<lparr>quest_date = today, quest_tasks = tasks,
          quest_totalXP = foldl (\<lambda>sum t. sum + task_xp t) 0 tasks,
          quest_completed = False\<rparr>)"

definition bumpTask :: "exercise \<Rightarrow> quest_task \<Rightarrow> quest_task" where
  \<comment> \<open>the \<open>if\<close> chain on the task's id\<close>
  "bumpTask e task =
     (if task_id task = ''task_breaks'' then task\<lparr>task_current := task_current task + 1\<rparr>
      else if task_id task = ''task_5min'' \<and> ex_category e = FiveMin
        then task\<lparr>task_current := task_current task + 1\<rparr>
      else if task_id task = ''task_eyes'' \<and> ex_id e = ''eye_exercise''
        then task\<lparr>task_current := task_current task + 1\<rparr>
      else if task_id task = ''task_variety'' then task\<lparr>task_current := task_current task + 1\<rparr>
      else task)"

fun questLoop :: "exercise \<Rightarrow> quest_task list \<Rightarrow> int \<Rightarrow> quest_task list \<times> int" where
  \<comment> \<open>the loop over the tasks; the integer is \<open>userStats.xp\<close>\<close>
  "questLoop e [] x = ([], x)"
| "questLoop e (task # rest) x =
     (if task_completed task then
        (let (rest', x') = questLoop e rest x in (task # rest', x'))
      else
        let t1 = bumpTask e task
        in if task_current t1 \<ge> task_target t1 then
             (let (rest', x') = questLoop e rest (x + task_xp t1)
              in (t1\<lparr>task_completed := True\<rparr> # rest', x'))
           else
             (let (rest', x') = questLoop e rest x in (t1 # rest', x')))"

definition updateDailyQuestProgress :: "exercise \<Rightarrow> gamification \<Rightarrow> gamification" where
  "updateDailyQuestProgress e gs =
     (case dailyQuest gs of
        None \<Rightarrow> gs
      | Some q \<Rightarrow>
          let (tasks, x) = questLoop e (quest_tasks q) (xp (userStats gs));
              allCompleted = list_all task_completed tasks;
              q1 = q\<lparr>quest_tasks := tasks\<rparr>
          in if allCompleted \<and> \<not> quest_completed q1
             then gs\<lparr>dailyQuest := Some (q1\<lparr>quest_completed := True\<rparr>),
                     userStats := (userStats gs)\<lparr>xp := x + 50\<rparr>\<rparr>
             else gs\<lparr>dailyQuest := Some q1, userStats := (userStats gs)\<lparr>xp := x\<rparr>\<rparr>)"

definition awardExerciseCompletion ::
  "bool \<Rightarrow> timestamp \<Rightarrow> exercise \<Rightarrow> gamification \<Rightarrow> gamification \<times> award_result" where
  "awardExerciseCompletion enabled now e gs =
     (let base = calculateExerciseXP e;
          bonusXP = calculateBonusXP now (userStats gs);
          totalXP = base + bonusXP;
          points = calculateExercisePoints enabled e (userStats gs);
          st1 = (userStats gs)\<lparr>xp := xp (userStats gs) + totalXP,
                                totalPoints := totalPoints (userStats gs) + points,
                                availablePoints := availablePoints (userStats gs) + points\<rparr>;
          (st2, up) = checkAndHandleLevelUp st1;
          lvl = (if up then Some (level st2) else None);
          (gs3, new) = checkAchievements now (gs\<lparr>userStats := st2\<rparr>);
          gs4 = updateDailyQuestProgress e gs3
      in (gs4, \<lparr>xpEarned = totalXP, awardedPoints = points, leveledUp = up,
                newLevel = lvl, newAchievements = new\<rparr>))"

section \<open>Exercise sequencer (ExerciseService)\<close>

text \<open>
  A step ends with whichever comes first: the countdown reaching zero, or the user's answer
  to the step's message (\<open>Skip\<close>, \<open>Stop Exercise\<close>, or dismissing it). The session's
  inputs are the answer to the start message, one such event per step, and the answer to
  the completion message.
\<close>

datatype step_event = CountdownElapsed | Responded "string option"

definition executeStep :: "exercise_step \<Rightarrow> nat \<Rightarrow> nat \<Rightarrow> step_event \<Rightarrow> bool" where
  "executeStep step stepNumber totalSteps ev =
     (case ev of
        CountdownElapsed \<Rightarrow> True
      | Responded response \<Rightarrow> (if response = Some ''Stop Exercise'' then False else True))"

fun stepsLoop :: "exercise_step list \<Rightarrow> nat \<Rightarrow> nat \<Rightarrow> (nat \<Rightarrow> step_event) \<Rightarrow> bool" where
  \<comment> \<open>the \<open>for\<close> loop from index \<open>i\<close>; the result is the flag \<open>completed\<close>\<close>
  "stepsLoop [] i n evs = True"
| "stepsLoop (step # rest) i n evs =
     (if executeStep step (i + 1) n (evs i) then stepsLoop rest (i + 1) n evs
      else False)"

record exercise_service =
  healthTracker :: "tracker option"
  gamificationService :: "gamification option"

record session_input =
  startTime :: timestamp
  startResponse :: "string option"
  stepEvents :: "nat \<Rightarrow> step_event"
  endTime :: timestamp
  gamificationEnabled :: bool
  celebrationResponse :: "string option"

datatype session_outcome = NotStarted | Cancelled | Completed bool
  \<comment> \<open>\<open>Completed True\<close>: the user chose \<open>Another Exercise\<close>, which opens the picker for a
      new session\<close>

definition handleExerciseCompletion ::
  "exercise \<Rightarrow> timestamp \<Rightarrow> timestamp \<Rightarrow> bool \<Rightarrow> exercise_service \<Rightarrow> exercise_service" where
  \<comment> \<open>the tracker records at the instant the session ends\<close>
  "handleExerciseCompletion e started ended enabled svc =
     (let act = \<lparr>p_exerciseId = Some (ex_id e), p_exerciseName = Some (ex_name e),
                 p_duration = Some (ex_duration e), p_caloriesBurned = Some (caloriesBurn e),
                 p_startedAt = Some started, p_completedAt = Some ended\<rparr>;
          svc1 = (case healthTracker svc of
                    None \<Rightarrow> svc
                  | Some tr \<Rightarrow> svc\<lparr>healthTracker := Some (recordActivity act ended tr)\<rparr>)
      in case gamificationService svc1 of
           None \<Rightarrow> svc1
         | Some gs \<Rightarrow>
             svc1\<lparr>gamificationService := Some (fst (awardExerciseCompletion enabled ended e gs))\<rparr>)"

definition executeExercise ::
  "exercise \<Rightarrow> session_input \<Rightarrow> exercise_service \<Rightarrow> exercise_service \<times> session_outcome" where
  "executeExercise e inp svc =
     (if startResponse inp \<noteq> Some ''Begin'' then (svc, NotStarted)
      else
        let completed = stepsLoop (steps e) 0 (length (steps e)) (stepEvents inp)
        in if completed then
             (handleExerciseCompletion e (startTime inp) (endTime inp) (gamificationEnabled inp) svc,
              Completed (celebrationResponse inp = Some ''Another Exercise''))
           else (svc, Cancelled))"

section \<open>JavaScript string functions used by the reminder service\<close>

definition js_includes :: "string \<Rightarrow> string \<Rightarrow> bool" where
  \<comment> \<open>\<open>s.includes(w)\<close>\<close>
  "js_includes s w = list_ex (\<lambda>t. prefix w t) (suffixes s)"

fun js_split :: "char \<Rightarrow> string \<Rightarrow> string list" where
  \<comment> \<open>\<open>s.split(c)\<close> for a one-character separator\<close>
  "js_split c [] = [[]]"
| "js_split c (x # xs) =
     (if x = c then [] # js_split c xs
      else case js_split c xs of
             [] \<Rightarrow> [[x]]
           | w # ws \<Rightarrow> (x # w) # ws)"

fun js_replace_first :: "string \<Rightarrow> string \<Rightarrow> string \<Rightarrow> string" where
  \<comment> \<open>\<open>s.replace(pat, rep)\<close> with a string pattern: the first occurrence only\<close>
  "js_replace_first pat rep [] = (if pat = [] then rep else [])"
| "js_replace_first pat rep (c # cs) =
     (if prefix pat (c # cs) then rep @ drop (length pat) (c # cs)
      else c # js_replace_first pat rep cs)"

definition isSpace :: "char \<Rightarrow> bool" where
  \<comment> \<open>the ASCII white space: tab, line feed, vertical tab, form feed, carriage return, space\<close>
  "isSpace c = (c \<in> set [CHR 0x09, CHR 0x0A, CHR 0x0B, CHR 0x0C, CHR 0x0D, CHR '' ''])"

definition isDigit :: "char \<Rightarrow> bool" where
  "isDigit c = (c \<in> set ''0123456789'')"

definition digitVal :: "char \<Rightarrow> int" where
  "digitVal c = int (of_char c) - 48"

definition decimalVal :: "string \<Rightarrow> int" where
  "decimalVal ds = foldl (\<lambda>acc c. acc * 10 + digitVal c) 0 ds"

definition isHexDigit :: "char \<Rightarrow> bool" where
  "isHexDigit c = (c \<in> set ''0123456789abcdefABCDEF'')"

definition hexDigitVal :: "char \<Rightarrow> int" where
  "hexDigitVal c =
     (if isDigit c then digitVal c
      else if c \<in> set ''abcdef'' then int (of_char c) - 87
      else int (of_char c) - 55)"

definition hexVal :: "string \<Rightarrow> int" where
  "hexVal ds = foldl (\<lambda>acc c. acc * 16 + hexDigitVal c) 0 ds"

text \<open>
  Numbers are \<open>int option\<close>, \<open>None\<close> standing for \<open>NaN\<close> (and for \<open>undefined\<close> where it
  enters arithmetic, which gives \<open>NaN\<close>). \<open>Number(s)\<close> is modelled on the strings that are
  white space around decimal digits, the only ones that give a number in an \<open>HH:MM\<close>
  field; every other string is \<open>None\<close> here, and the theorems below rely on \<open>js_Number\<close>
  only where it returns a number.
\<close>

type_synonym jsnum = "int option"

definition js_trim :: "string \<Rightarrow> string" where
  "js_trim s = rev (dropWhile isSpace (rev (dropWhile isSpace s)))"

definition js_Number :: "string \<Rightarrow> jsnum" where
  "js_Number s =
     (let t = js_trim s
      in if t = [] then Some 0
         else if list_all isDigit t then Some (decimalVal t)
         else None)"

definition parseInt :: "string \<Rightarrow> jsnum" where
  \<comment> \<open>\<open>parseInt(s)\<close> without a radix: leading white space, a sign, then hexadecimal
      digits after \<open>0x\<close> or decimal digits otherwise, up to the first other character\<close>
  "parseInt s =
     (let t = dropWhile isSpace s;
          (sign, u) = (case t of
                         c # r \<Rightarrow> (if c = CHR ''-'' then (- 1, r)
                                   else if c = CHR ''+'' then (1, r) else (1, t))
                       | [] \<Rightarrow> (1 :: int, t))
      in if prefix ''0x'' u \<or> prefix ''0X'' u then
           (let ds = takeWhile isHexDigit (drop 2 u)
            in if ds = [] then None else Some (sign * hexVal ds))
         else
           (let ds = takeWhile isDigit u
            in if ds = [] then None else Some (sign * decimalVal ds)))"

definition js_mul :: "jsnum \<Rightarrow> jsnum \<Rightarrow> jsnum" where
  "js_mul a b = (case (a, b) of (Some x, Some y) \<Rightarrow> Some (x * y) | _ \<Rightarrow> None)"

definition js_add :: "jsnum \<Rightarrow> jsnum \<Rightarrow> jsnum" where
  "js_add a b = (case (a, b) of (Some x, Some y) \<Rightarrow> Some (x + y) | _ \<Rightarrow> None)"

definition js_ge :: "jsnum \<Rightarrow> jsnum \<Rightarrow> bool" where
  \<comment> \<open>a comparison with \<open>NaN\<close> is false\<close>
  "js_ge a b = (case (a, b) of (Some x, Some y) \<Rightarrow> x \<ge> y | _ \<Rightarrow> False)"

definition js_le :: "jsnum \<Rightarrow> jsnum \<Rightarrow> bool" where
  "js_le a b = (case (a, b) of (Some x, Some y) \<Rightarrow> x \<le> y | _ \<Rightarrow> False)"

definition elemAt :: "jsnum list \<Rightarrow> nat \<Rightarrow> jsnum" where
  \<comment> \<open>array destructuring: a missing element is \<open>undefined\<close>\<close>
  "elemAt xs i = (if i < length xs then xs ! i else None)"

definition toLowerAscii :: "char \<Rightarrow> char" where
  "toLowerAscii c =
     (if CHR ''A'' \<le> c \<and> c \<le> CHR ''Z'' then char_of (of_char c + 32 :: nat) else c)"

definition js_toLowerCase :: "string \<Rightarrow> string" where
  \<comment> \<open>on the bytes of the UTF-8 text: the ASCII letters are lowered\<close>
  "js_toLowerCase s = map toLowerAscii s"

section \<open>Reminder policy (services/ReminderService.ts)\<close>

record config =
  cfg_frequency :: string
  cfg_style :: string
  cfg_dndEnabled :: bool
  cfg_dndHours :: "string list"

definition defaultConfig :: config where
  \<comment> \<open>the defaults passed to \<open>config.get\<close>\<close>
  "defaultConfig = \<lparr>cfg_frequency = ''smart'', cfg_style = ''toast'', cfg_dndEnabled = True,
     cfg_dndHours = [''12:00-13:00'']\<rparr>"

record reminder_state =
  paused :: bool
  snoozedUntil :: "timestamp option"
  lastActivityTime :: timestamp
  lastCommitTime :: "timestamp option"
  consecutiveWorkMinutes :: int
  codeInputFrequency :: int
  todayBreakCount :: int

record reminder_context =
  ctx_lastActivityTime :: timestamp
  ctx_codeInputFrequency :: int
  ctx_lastCommitTime :: "timestamp option"
  ctx_isDebugging :: bool
  ctx_consecutiveWorkMinutes :: int
  ctx_todayBreakCount :: int

datatype js_error = TypeError

datatype severity = Light | Standard | Strong

datatype emotion = Celebration | Frustration | Milestone | Normal

text \<open>
  What the service does to the outside: a reminder (its severity, the index of the message
  drawn from the severity's pool of three, and its buttons), the post-commit prompt, the
  notice that confirms a snooze, and the opening of the exercise picker for a number of
  seconds.
\<close>

datatype effect =
    Reminder severity nat "string list"
  | PostCommitPrompt emotion
  | SnoozeNotice int
  | ExercisePicker int

record tick_env =
  env_now :: timestamp
  env_debugging :: bool
  env_chance :: rat
  env_pick :: rat
  env_response :: "string option"

definition pause :: "reminder_state \<Rightarrow> reminder_state" where
  "pause st = st\<lparr>paused := True\<rparr>"

definition resume :: "reminder_state \<Rightarrow> reminder_state" where
  "resume st = st\<lparr>paused := False, snoozedUntil := None\<rparr>"

definition isPaused :: "reminder_state \<Rightarrow> timestamp \<Rightarrow> bool" where
  "isPaused st now =
     (paused st \<or> (case snoozedUntil st of None \<Rightarrow> False | Some u \<Rightarrow> now < u))"

definition snooze :: "int \<Rightarrow> timestamp \<Rightarrow> reminder_state \<Rightarrow> reminder_state" where
  "snooze minutes now st = st\<lparr>snoozedUntil := Some (now + minutes * 60 * 1000)\<rparr>"

definition rangeMinutes :: "string \<Rightarrow> js_error + jsnum \<times> jsnum" where
  \<comment> \<open>\<open>startMinutes\<close> and \<open>endMinutes\<close> of a range; \<open>end.split\<close> on a range without a
      dash throws\<close>
  "rangeMinutes rng =
     (case js_split CHR ''-'' rng of
        startStr # endStr # _ \<Rightarrow>
          (let sp = map js_Number (js_split CHR '':'' startStr);
               ep = map js_Number (js_split CHR '':'' endStr);
               startMinutes = js_add (js_mul (elemAt sp 0) (Some 60)) (elemAt sp 1);
               endMinutes = js_add (js_mul (elemAt ep 0) (Some 60)) (elemAt ep 1)
           in Inr (startMinutes, endMinutes))
      | _ \<Rightarrow> Inl TypeError)"

definition rangeContains :: "int \<Rightarrow> string \<Rightarrow> js_error + bool" where
  \<comment> \<open>the test in the body of the loop over the ranges\<close>
  "rangeContains currentMinutes rng =
     (case rangeMinutes rng of
        Inl err \<Rightarrow> Inl err
      | Inr (startMinutes, endMinutes) \<Rightarrow>
          Inr (js_ge (Some currentMinutes) startMinutes
               \<and> js_le (Some currentMinutes) endMinutes))"

fun dndLoop :: "int \<Rightarrow> string list \<Rightarrow> js_error + bool" where
  "dndLoop currentMinutes [] = Inr False"
| "dndLoop currentMinutes (rng # rest) =
     (case rangeContains currentMinutes rng of
        Inl err \<Rightarrow> Inl err
      | Inr hit \<Rightarrow> (if hit then Inr True else dndLoop currentMinutes rest))"

definition isDoNotDisturbTime :: "config \<Rightarrow> timestamp \<Rightarrow> js_error + bool" where
  "isDoNotDisturbTime cfg now =
     (if \<not> cfg_dndEnabled cfg then Inr False
      else
        let currentMinutes = getHours now * 60 + getMinutes now
        in dndLoop currentMinutes (cfg_dndHours cfg))"

definition getReminderContext :: "bool \<Rightarrow> reminder_state \<Rightarrow> reminder_context" where
  "getReminderContext debugging st =
     \<lparr>ctx_lastActivityTime = lastActivityTime st,
      ctx_codeInputFrequency = codeInputFrequency st,
      ctx_lastCommitTime = lastCommitTime st,
      ctx_isDebugging = debugging,
      ctx_consecutiveWorkMinutes = consecutiveWorkMinutes st,
      ctx_todayBreakCount = todayBreakCount st\<rparr>"

definition shouldShowReminder :: "config \<Rightarrow> reminder_context \<Rightarrow> timestamp \<Rightarrow> rat \<Rightarrow> bool" where
  \<comment> \<open>\<open>chance\<close> is the value of \<open>Math.random()\<close>\<close>
  "shouldShowReminder cfg ctx now chance =
     (let frequency = cfg_frequency cfg
      in if ctx_isDebugging ctx then False
         else if ctx_codeInputFrequency ctx > 50 then False
         else if frequency = ''smart'' then
           (if ctx_consecutiveWorkMinutes ctx \<ge> 120 then True
            else if ctx_consecutiveWorkMinutes ctx \<ge> 90 then True
            else if ctx_consecutiveWorkMinutes ctx \<ge> 45 \<and> ctx_todayBreakCount ctx < 8
              then chance > 5 / 10
            else
              (case ctx_lastCommitTime ctx of
                 Some t \<Rightarrow>
                   (let timeSinceCommit = now - t
                    in if timeSinceCommit < 5 * 60 * 1000 \<and> timeSinceCommit > 1 * 60 * 1000
                       then True else False)
               | None \<Rightarrow> False))
         else
           (let minutes = parseInt (js_replace_first ''min'' [] frequency)
            in js_ge (Some (ctx_consecutiveWorkMinutes ctx)) minutes))"

definition reminderSeverity :: "reminder_context \<Rightarrow> severity" where
  \<comment> \<open>"Determine severity" in \<open>showReminder\<close>\<close>
  "reminderSeverity ctx =
     (if ctx_consecutiveWorkMinutes ctx \<ge> 120 then Strong
      else if ctx_consecutiveWorkMinutes ctx < 60 then Light
      else Standard)"

definition getReminderMessage :: "rat \<Rightarrow> nat" where
  \<comment> \<open>the index \<open>Math.floor(Math.random() * pool.length)\<close> into a pool of three\<close>
  "getReminderMessage pick = nat \<lfloor>pick * 3\<rfloor>"

definition getReminderActions :: "severity \<Rightarrow> string list" where
  "getReminderActions sev =
     (if sev = Strong then [''Take 5-min Break'', ''Take 3-min Break'']
      else if sev = Standard then [''3-min Exercise'', ''Quick Walk'', ''Snooze 15min'']
      else [''1-min Stretch'', ''Eye Exercise'', ''Snooze 30min''])"

definition handleReminderResponse ::
  "string \<Rightarrow> timestamp \<Rightarrow> reminder_state \<Rightarrow> reminder_state \<times> effect list" where
  "handleReminderResponse response now st =
     (if js_includes response ''Snooze'' then
        (let minutes = (if js_includes response ''15'' then 15 else 30)
         in (snooze minutes now st, [SnoozeNotice minutes]))
      else
        (let d = (if js_includes response ''5-min'' then 5
                  else if js_includes response ''3-min'' then 3 else 1)
         in (st\<lparr>consecutiveWorkMinutes := 0, todayBreakCount := todayBreakCount st + 1\<rparr>,
             [ExercisePicker (d * 60)])))"

definition showReminder ::
  "config \<Rightarrow> reminder_context \<Rightarrow> tick_env \<Rightarrow> reminder_state \<Rightarrow> reminder_state \<times> effect list" where
  "showReminder cfg ctx env st =
     (let sev = reminderSeverity ctx;
          message = getReminderMessage (env_pick env);
          actions = getReminderActions sev;
          (response, shown) =
             (if cfg_style cfg = ''toast'' \<or> cfg_style cfg = ''statusBar''
              then (env_response env, [Reminder sev message actions])
              else (None, []))
      in case response of
           None \<Rightarrow> (st, shown)
         | Some r \<Rightarrow>
             (if r = [] then (st, shown)
              else let (st1, more) = handleReminderResponse r (env_now env) st
                   in (st1, shown @ more)))"

definition checkAndNotify ::
  "config \<Rightarrow> tick_env \<Rightarrow> reminder_state \<Rightarrow> js_error + reminder_state \<times> effect list" where
  "checkAndNotify cfg env st =
     (if isPaused st (env_now env) then Inr (st, [])
      else
        case isDoNotDisturbTime cfg (env_now env) of
          Inl err \<Rightarrow> Inl err
        | Inr dnd \<Rightarrow>
            if dnd then Inr (st, [])
            else
              let st1 = st\<lparr>consecutiveWorkMinutes := consecutiveWorkMinutes st + 1\<rparr>;
                  ctx = getReminderContext (env_debugging env) st1
              in if shouldShowReminder cfg ctx (env_now env) (env_chance env)
                 then Inr (showReminder cfg ctx env st1)
                 else Inr (st1, []))"

definition celebrationWords :: "string list" where
  \<comment> \<open>the last word is the party-popper emoji, as its four UTF-8 bytes\<close>
  "celebrationWords =
     [''finally'', ''done'', ''complete'', ''success'', ''yay'',
      [CHR 0xF0, CHR 0x9F, CHR 0x8E, CHR 0x89]]"

definition frustrationWords :: "string list" where
  "frustrationWords = [''fix'', ''bug'', ''damn'', ''wtf'', ''issue'']"

definition milestoneWords :: "string list" where
  "milestoneWords = [''release'', ''v1.0'', ''launch'', ''deploy'', ''merge'']"

definition detectCommitEmotion :: "string \<Rightarrow> emotion" where
  "detectCommitEmotion message =
     (let lower = js_toLowerCase message
      in if list_ex (\<lambda>word. js_includes lower word) celebrationWords then Celebration
         else if list_ex (\<lambda>word. js_includes lower word) frustrationWords then Frustration
         else if list_ex (\<lambda>word. js_includes lower word) milestoneWords then Milestone
         else Normal)"

definition showPostCommitReminder ::
  "string \<Rightarrow> string option \<Rightarrow> reminder_state \<Rightarrow> reminder_state \<times> effect list" where
  \<comment> \<open>the second argument is the user's answer to the prompt\<close>
  "showPostCommitReminder commitMessage response st =
     (let em = detectCommitEmotion commitMessage;
          shown = [PostCommitPrompt em]
      in case response of
           None \<Rightarrow> (st, shown)
         | Some r \<Rightarrow>
             (if r \<noteq> [] \<and> r \<noteq> ''Later'' then
                (let d = (if js_includes r ''2-min'' then 120 else 60)
                 in (st\<lparr>consecutiveWorkMinutes := 0, todayBreakCount := todayBreakCount st + 1\<rparr>,
                     shown @ [ExercisePicker d]))
              else (st, shown)))"

definition notifyCommit ::
  "string \<Rightarrow> timestamp \<Rightarrow> reminder_state \<Rightarrow> reminder_state \<times> (timestamp \<times> string)" where
  \<comment> \<open>the new state, and the timer it sets: when it is due and the message it carries\<close>
  "notifyCommit commitMessage now st =
     (st\<lparr>lastCommitTime := Some now\<rparr>, (now + 5000, commitMessage))"

definition commitPath ::
  "string \<Rightarrow> timestamp \<Rightarrow> string option \<Rightarrow> reminder_state \<Rightarrow> reminder_state \<times> effect list" where
  \<comment> \<open>\<open>notifyCommit\<close>, then its timer firing\<close>
  "commitPath commitMessage now response st =
     (let (st1, (due, msg)) = notifyCommit commitMessage now st
      in showPostCommitReminder msg response st1)"

section \<open>Sample data\<close>

definition sampleActivity :: "string \<Rightarrow> int \<Rightarrow> timestamp \<Rightarrow> timestamp \<Rightarrow> activity" where
  \<comment> \<open>an activity as \<open>recordActivity\<close> stores it: created when it completes\<close>
  "sampleActivity eid secs started completed =
     \<lparr>exerciseId = eid, exerciseName = eid, duration = secs, caloriesBurned = 2,
      pointsEarned = 5, startedAt = started, completedAt = completed, createdAt = completed\<rparr>"

definition sampleLog :: "nat \<Rightarrow> activity list" where
  \<comment> \<open>\<open>n\<close> one-minute activities, one per hour, oldest first\<close>
  "sampleLog n =
     map (\<lambda>k. sampleActivity ''eye_exercise'' 60 (int k * 3600000) (int k * 3600000 + 60000)) [0..<n]"

definition eye_exercise :: exercise where
  \<comment> \<open>the first entry of the catalog \<open>EXERCISES\<close>\<close>
  "eye_exercise =
     \<lparr>ex_id = ''eye_exercise'', ex_name = ''20-20-20 Eye Exercise'', ex_category = OneMin,
      ex_duration = 60,
      steps = [\<lparr>instruction = ''Look at an object 20 feet (6 meters) away'', step_duration = 20\<rparr>,
               \<lparr>instruction = ''Keep looking at the distant object'', step_duration = 20\<rparr>,
               \<lparr>instruction = ''Return to your screen'', step_duration = 20\<rparr>],
      caloriesBurn = 2\<rparr>"

definition freshGamification :: "timestamp \<Rightarrow> gamification" where
  \<comment> \<open>the state of a first start: default statistics, nothing unlocked, today's quest\<close>
  "freshGamification now =
     \<lparr>userStats = defaultStats, unlockedAchievements = [],
      dailyQuest = Some (generateDailyQuest now)\<rparr>"

definition weekStreakGamification :: "timestamp \<Rightarrow> gamification" where
  \<comment> \<open>as \<open>freshGamification\<close>, with a streak of 7 days\<close>
  "weekStreakGamification now =
     (freshGamification now)\<lparr>userStats := defaultStats\<lparr>streak := 7, longestStreak := 7\<rparr>\<rparr>"

definition idleState :: reminder_state where
  \<comment> \<open>the service's initial field values, the clock starting at 0\<close>
  "idleState = \<lparr>paused = False, snoozedUntil = None, lastActivityTime = 0,
     lastCommitTime = None, consecutiveWorkMinutes = 0, codeInputFrequency = 0,
     todayBreakCount = 0\<rparr>"

definition atClock :: "int \<Rightarrow> int \<Rightarrow> timestamp" where
  \<comment> \<open>the instant \<open>h:m\<close> of day 0\<close>
  "atClock h m = (h * 60 + m) * msPerMinute"

definition quietEnv :: "timestamp \<Rightarrow> tick_env" where
  \<comment> \<open>no debugger, both random draws 3/4, the user dismissing whatever is shown\<close>
  "quietEnv now = \<lparr>env_now = now, env_debugging = False, env_chance = 3 / 4, env_pick = 3 / 4,
     env_response = None\<rparr>"

definition workContext :: "int \<Rightarrow> int \<Rightarrow> timestamp option \<Rightarrow> reminder_context" where
  \<comment> \<open>no debugger, no typing: minutes worked, breaks taken today, last commit\<close>
  "workContext m b commit =
     \<lparr>ctx_lastActivityTime = 0, ctx_codeInputFrequency = 0, ctx_lastCommitTime = commit,
      ctx_isDebugging = False, ctx_consecutiveWorkMinutes = m, ctx_todayBreakCount = b\<rparr>"

definition wiredService :: exercise_service where
  \<comment> \<open>the exercise service with both collaborators attached\<close>
  "wiredService = \<lparr>healthTracker = Some \<lparr>activities = [], currentStats = defaultStats\<rparr>,
     gamificationService = Some (freshGamification 0)\<rparr>"

definition stoppedSession :: session_input where
  \<comment> \<open>begun at 09:00, the first step runs out, the second is stopped\<close>
  "stoppedSession =
     \<lparr>startTime = atClock 9 0, startResponse = Some ''Begin'',
      stepEvents = (\<lambda>k. if k = 1 then Responded (Some ''Stop Exercise'') else CountdownElapsed),
      endTime = atClock 9 0 + 25000, gamificationEnabled = True, celebrationResponse = None\<rparr>"

definition skippedSession :: session_input where
  \<comment> \<open>begun at 09:00, every step skipped, over after five seconds\<close>
  "skippedSession =
     \<lparr>startTime = atClock 9 0, startResponse = Some ''Begin'',
      stepEvents = (\<lambda>k. Responded (Some ''Skip'')),
      endTime = atClock 9 0 + 5000, gamificationEnabled = True, celebrationResponse = None\<rparr>"

definition oneBreakTracker :: tracker where
  \<comment> \<open>one eye exercise today, from 00:30 to 00:31\<close>
  "oneBreakTracker =
     \<lparr>activities = [sampleActivity ''eye_exercise'' 60 1800000 1860000],
      currentStats = defaultStats\<rparr>"

definition emptyTracker :: tracker where
  "emptyTracker = \<lparr>activities = [], currentStats = defaultStats\<rparr>"

definition eyeBreak :: "timestamp \<Rightarrow> partial_activity" where
  \<comment> \<open>what \<open>handleExerciseCompletion\<close> passes for a one-minute eye exercise ending at \<open>t\<close>\<close>
  "eyeBreak t =
     \<lparr>p_exerciseId = Some ''eye_exercise'', p_exerciseName = Some ''20-20-20 Eye Exercise'',
      p_duration = Some 60, p_caloriesBurned = Some 2,
      p_startedAt = Some (t - 60000), p_completedAt = Some t\<rparr>"

definition morning :: "int \<Rightarrow> timestamp" where
  \<comment> \<open>10:00 on day \<open>d\<close>\<close>
  "morning d = d * msPerDay + 10 * 3600000"

definition afterDayOne :: tracker where
  "afterDayOne = recordActivity (eyeBreak (morning 0)) (morning 0) emptyTracker"

definition afterDayTwoFirst :: tracker where
  "afterDayTwoFirst = recordActivity (eyeBreak (morning 1)) (morning 1) afterDayOne"

definition todayOnly :: tracker where
  \<comment> \<open>a log that holds the first break of day 1 and nothing else\<close>
  "todayOnly = \<lparr>activities = [fullActivity (eyeBreak (morning 1)) (morning 1)],
                 currentStats = defaultStats\<rparr>"

definition afterDayTwoSecond :: tracker where
  \<comment> \<open>a second break one hour later on the same day\<close>
  "afterDayTwoSecond =
     recordActivity (eyeBreak (morning 1 + 3600000)) (morning 1 + 3600000) afterDayTwoFirst"

section \<open>Level lookup\<close>

lemma findCurrentLevel_bands:
  "findCurrentLevel x =
     (if 25000 \<le> x then 50 else if 10000 \<le> x then 30 else if 5000 \<le> x then 20
      else if 3000 \<le> x then 15 else if 1500 \<le> x then 10 else if 500 \<le> x then 5
      else if 250 \<le> x then 3 else if 100 \<le> x then 2 else 1)"
  by (simp add: findCurrentLevel_def LEVELS_def numeral_eq_Suc)

lemma findCurrentLevel_mono: "x \<le> y \<Longrightarrow> findCurrentLevel x \<le> findCurrentLevel y"
  by (simp add: findCurrentLevel_bands)

text \<open>
  Claim C8. The level lookup is inclusive at the threshold: 0 XP and 99 XP are level 1,
  100 XP is level 2. In general the result is the level of a table entry whose
  \<open>xpRequired\<close> is at most the given XP (or the default 1), and no such entry has a
  higher level.
\<close>

theorem findCurrentLevel_boundary:
  "findCurrentLevel 0 = 1 \<and> findCurrentLevel 99 = 1 \<and> findCurrentLevel 100 = 2 \<and>
   (\<forall>l \<in> set LEVELS. xpRequired l \<le> x \<longrightarrow> lv_level l \<le> findCurrentLevel x) \<and>
   (findCurrentLevel x = 1 \<or>
    (\<exists>l \<in> set LEVELS. xpRequired l \<le> x \<and> lv_level l = findCurrentLevel x))"
proof -
  have "\<forall>l \<in> set LEVELS. xpRequired l \<le> x \<longrightarrow> lv_level l \<le> findCurrentLevel x"
    by (simp add: findCurrentLevel_bands LEVELS_def)
  moreover have "findCurrentLevel x = 1 \<or>
      (\<exists>l \<in> set LEVELS. xpRequired l \<le> x \<and> lv_level l = findCurrentLevel x)"
    by (simp add: findCurrentLevel_bands LEVELS_def)
  moreover have "findCurrentLevel 0 = 1" "findCurrentLevel 99 = 1" "findCurrentLevel 100 = 2"
    by (simp_all add: findCurrentLevel_bands)
  ultimately show ?thesis by blast
qed

theorem findCurrentLevel_boundary_witness:
  "LEVELS ! 1 \<in> set LEVELS \<and> xpRequired (LEVELS ! 1) \<le> 100 \<and>
   lv_level (LEVELS ! 1) \<le> findCurrentLevel 100 \<and> findCurrentLevel 100 = 2"
proof -
  have m: "LEVELS ! 1 \<in> set LEVELS" by (simp add: LEVELS_def)
  have r: "xpRequired (LEVELS ! 1) \<le> 100" by (simp add: LEVELS_def)
  from findCurrentLevel_boundary [of 100] m r show ?thesis by blast
qed

section \<open>Activity log cap\<close>

lemma length_saveActivity: "length (saveActivity stored a) \<le> 1000"
  by (simp add: saveActivity_def js_splice_head_def Let_def)

lemma saveActivity_keeps_last: "saveActivity stored a = drop (length stored - 999) (stored @ [a])"
  by (simp add: saveActivity_def js_splice_head_def Let_def)

text \<open>
  Claim C9. Saving onto a log of exactly 1000 entries appends the new activity at the tail
  and drops exactly the head entry, the rest keeping its order; saving onto a shorter log
  is a pure append; the stored list never has more than 1000 entries.
\<close>

theorem saveActivity_cap:
  "(length stored = 1000 \<longrightarrow>
      saveActivity stored a = tl stored @ [a] \<and> length (saveActivity stored a) = 1000) \<and>
   (length stored < 1000 \<longrightarrow> saveActivity stored a = stored @ [a]) \<and>
   length (saveActivity stored a) \<le> 1000"
proof -
  have "saveActivity stored a = tl stored @ [a]" if "length stored = 1000"
    using that by (cases stored) (simp_all add: saveActivity_def js_splice_head_def)
  moreover have "saveActivity stored a = stored @ [a]" if "length stored < 1000"
    using that by (simp add: saveActivity_def js_splice_head_def)
  moreover have "length (tl stored @ [a]) = 1000" if "length stored = 1000"
    using that by simp
  ultimately show ?thesis using length_saveActivity by auto
qed

theorem saveActivity_cap_witness:
  "length (sampleLog 1000) = 1000 \<and>
   saveActivity (sampleLog 1000) (sampleActivity ''neck_stretch'' 60 0 0)
     = tl (sampleLog 1000) @ [sampleActivity ''neck_stretch'' 60 0 0] \<and>
   length (sampleLog 2) < 1000 \<and>
   saveActivity (sampleLog 2) (sampleActivity ''neck_stretch'' 60 0 0)
     = sampleLog 2 @ [sampleActivity ''neck_stretch'' 60 0 0]"
proof -
  have l: "length (sampleLog 1000) = 1000" by (simp add: sampleLog_def)
  have s: "length (sampleLog 2) < 1000" by (simp add: sampleLog_def)
  from saveActivity_cap [of "sampleLog 1000" "sampleActivity ''neck_stretch'' 60 0 0"]
       saveActivity_cap [of "sampleLog 2" "sampleActivity ''neck_stretch'' 60 0 0"] l s
  show ?thesis by blast
qed

section \<open>Health score\<close>

lemma js_round_of_int: "js_round (of_int n) = n"
  unfolding js_round_def by linarith

lemma js_round_quotient:
  assumes "0 < b"
  shows "js_round (of_int a / of_int b) = (2 * a + b) div (2 * b)"
proof -
  have "(of_int a / of_int b + 1 / 2 :: rat) = of_int (2 * a + b) / of_int (2 * b)"
    using assms by (simp add: field_simps)
  then show ?thesis
    unfolding js_round_def by (simp only: floor_divide_of_int_eq)
qed

lemma js_round_numeral: "js_round (numeral n) = numeral n"
  using js_round_of_int [of "numeral n"] by simp

lemma js_round_numeral_quotient:
  "js_round (numeral a / numeral b) = (2 * numeral a + numeral b) div (2 * numeral b)"
  using js_round_quotient [of "numeral b" "numeral a"] by simp

lemma js_round_zero: "js_round 0 = 0"
  using js_round_of_int [of 0] by simp

lemmas js_round_eval =
  js_round_of_int js_round_zero js_round_numeral js_round_numeral_quotient

lemmas time_eval = dayOf_def startOfDay_def msPerDay_def msPerMinute_def

lemmas score_eval =
  calculateHealthScore_def getActivitiesForDate_def calculateDailyMetrics_def
  calculateLongestSittingStreak_def breakPenalty_def sittingPenalty_def durationPenalty_def
  varietyPenalty_def Let_def

lemma calculateHealthScore_bounds:
  "0 \<le> calculateHealthScore tr now \<and> calculateHealthScore tr now \<le> 100"
  by (simp add: calculateHealthScore_def Let_def)

lemma penalties_ignore_stats:
  "breakPenalty (calculateDailyMetrics s' acts now) = breakPenalty (calculateDailyMetrics s acts now)"
  "sittingPenalty (calculateDailyMetrics s' acts now) = sittingPenalty (calculateDailyMetrics s acts now)"
  "durationPenalty (calculateDailyMetrics s' acts now) = durationPenalty (calculateDailyMetrics s acts now)"
  by (simp_all add: breakPenalty_def sittingPenalty_def durationPenalty_def
      calculateDailyMetrics_def Let_def)

lemma calculateHealthScore_of_today:
  assumes "getActivitiesForDate (activities tr') now = getActivitiesForDate (activities tr) now"
  shows "calculateHealthScore tr' now = calculateHealthScore tr now"
  unfolding calculateHealthScore_def Let_def assms
    penalties_ignore_stats [of "currentStats tr'" _ _ "currentStats tr"] ..

text \<open>
  Claim C1, as stated, fails: the sitting gap runs up to the moment of evaluation, so one
  and the same set of today's activities scores 30 at 01:00 and 0 at 04:00.
\<close>

theorem calculateHealthScore_depends_on_now:
  "getActivitiesForDate (activities oneBreakTracker) 3600000
     = getActivitiesForDate (activities oneBreakTracker) 14400000 \<and>
   calculateHealthScore oneBreakTracker 3600000 = 30 \<and>
   calculateHealthScore oneBreakTracker 14400000 = 0"
  by (simp add: score_eval time_eval js_round_eval oneBreakTracker_def sampleActivity_def)

text \<open>
  Claim C1, amended. The score is an integer between 0 and 100, and it is a function of
  today's activities together with the time of the evaluation: two trackers whose logs
  agree on today's activities get the same score at the same instant, whatever else their
  logs and statistics hold.
\<close>

theorem calculateHealthScore_range:
  "0 \<le> calculateHealthScore tr now \<and> calculateHealthScore tr now \<le> 100 \<and>
   (getActivitiesForDate (activities tr') now = getActivitiesForDate (activities tr) now
      \<longrightarrow> calculateHealthScore tr' now = calculateHealthScore tr now)"
  using calculateHealthScore_bounds calculateHealthScore_of_today by blast

theorem calculateHealthScore_range_witness:
  "getActivitiesForDate (activities todayOnly) (morning 1 + 3600000)
     = getActivitiesForDate (activities afterDayTwoFirst) (morning 1 + 3600000) \<and>
   calculateHealthScore todayOnly (morning 1 + 3600000)
     = calculateHealthScore afterDayTwoFirst (morning 1 + 3600000) \<and>
   0 \<le> calculateHealthScore afterDayTwoFirst (morning 1 + 3600000) \<and>
   calculateHealthScore afterDayTwoFirst (morning 1 + 3600000) \<le> 100"
proof -
  have a: "activities afterDayTwoFirst =
             [fullActivity (eyeBreak (morning 0)) (morning 0),
              fullActivity (eyeBreak (morning 1)) (morning 1)]"
    by (simp add: afterDayTwoFirst_def afterDayOne_def emptyTracker_def recordActivity_def
        updateHealthScore_def updateStats_def updateStreak_def saveActivity_def Let_def)
  have h: "getActivitiesForDate (activities todayOnly) (morning 1 + 3600000)
     = getActivitiesForDate (activities afterDayTwoFirst) (morning 1 + 3600000)"
    unfolding a by (simp add: todayOnly_def fullActivity_def getActivitiesForDate_def
        morning_def time_eval)
  from calculateHealthScore_range [of afterDayTwoFirst "morning 1 + 3600000" todayOnly] h
  show ?thesis by blast
qed

lemma calculateDailyMetrics_empty:
  "calculateDailyMetrics st [] now =
     \<lparr>codingTime = 480, breaksTaken = 0, breaksRecommended = 8, exerciseDuration = 0,
      dm_caloriesBurned = 0, dm_healthScore = healthScore st, longestSittingStreak = 480\<rparr>"
  by (simp add: calculateDailyMetrics_def calculateLongestSittingStreak_def)

lemma penalties_empty:
  "breakPenalty (calculateDailyMetrics st [] now) = 40"
  "sittingPenalty (calculateDailyMetrics st [] now) = 30"
  "durationPenalty (calculateDailyMetrics st [] now) = 15"
  "varietyPenalty [] = 15"
  unfolding calculateDailyMetrics_empty
  by (simp_all add: breakPenalty_def sittingPenalty_def durationPenalty_def varietyPenalty_def)

text \<open>
  Claim C7. With no activity today the score is exactly 0: no breaks against 8 recommended
  costs 40, the sitting gap defaults to 480 minutes and costs 30, zero exercise minutes
  cost 15 and zero distinct exercises cost 15.
\<close>

theorem calculateHealthScore_no_activities:
  assumes "getActivitiesForDate (activities tr) now = []"
  shows "calculateHealthScore tr now = 0 \<and>
         breaksTaken (calculateDailyMetrics (currentStats tr) [] now) = 0 \<and>
         breaksRecommended (calculateDailyMetrics (currentStats tr) [] now) = 8 \<and>
         breakPenalty (calculateDailyMetrics (currentStats tr) [] now) = 40 \<and>
         longestSittingStreak (calculateDailyMetrics (currentStats tr) [] now) = 480 \<and>
         sittingPenalty (calculateDailyMetrics (currentStats tr) [] now) = 30 \<and>
         exerciseDuration (calculateDailyMetrics (currentStats tr) [] now) = 0 \<and>
         durationPenalty (calculateDailyMetrics (currentStats tr) [] now) = 15 \<and>
         varietyPenalty [] = 15"
proof -
  have "calculateHealthScore tr now = 0"
    unfolding calculateHealthScore_def Let_def assms penalties_empty
    by (simp add: js_round_zero)
  moreover have "breaksTaken (calculateDailyMetrics (currentStats tr) [] now) = 0"
    "breaksRecommended (calculateDailyMetrics (currentStats tr) [] now) = 8"
    "longestSittingStreak (calculateDailyMetrics (currentStats tr) [] now) = 480"
    "exerciseDuration (calculateDailyMetrics (currentStats tr) [] now) = 0"
    unfolding calculateDailyMetrics_empty by simp_all
  ultimately show ?thesis using penalties_empty by blast
qed

theorem calculateHealthScore_no_activities_witness:
  "getActivitiesForDate (activities oneBreakTracker) (morning 1) = [] \<and>
   calculateHealthScore oneBreakTracker (morning 1) = 0"
proof -
  have h: "getActivitiesForDate (activities oneBreakTracker) (morning 1) = []"
    by (simp add: oneBreakTracker_def sampleActivity_def getActivitiesForDate_def morning_def
        time_eval)
  from calculateHealthScore_no_activities [OF h] h show ?thesis by blast
qed

section \<open>Streak\<close>

lemma recordActivity_activities:
  "activities (recordActivity p now tr) = saveActivity (activities tr) (fullActivity p now)"
  by (simp add: recordActivity_def updateHealthScore_def updateStats_def updateStreak_def Let_def)

lemma saved_today:
  "list_ex (\<lambda>a. dayOf (createdAt a) = dayOf now) (saveActivity stored (fullActivity p now))"
proof -
  have "fullActivity p now \<in> set (saveActivity stored (fullActivity p now))"
    by (simp add: saveActivity_def js_splice_head_def Let_def)
  moreover have "createdAt (fullActivity p now) = now"
    by (simp add: fullActivity_def)
  ultimately show ?thesis unfolding list_ex_iff by metis
qed

text \<open>
  What one recorded activity does to the streak: the activity itself makes "today" true,
  so the streak grows by one whenever the log holds an activity of yesterday (or the
  streak is 0), and is left alone otherwise.
\<close>

lemma recordActivity_streak:
  "streak (currentStats (recordActivity p now tr)) =
     (if list_ex (\<lambda>a. dayOf (createdAt a) = dayOf (now - msPerDay))
           (saveActivity (activities tr) (fullActivity p now))
         \<or> streak (currentStats tr) = 0
      then streak (currentStats tr) + 1 else streak (currentStats tr))"
  using saved_today [of now "activities tr" p]
  by (simp add: recordActivity_def updateHealthScore_def updateStats_def updateStreak_def
      streakTransition_def Let_def)

lemma streakTransition_today_only:
  "0 < streak s \<Longrightarrow> streak (streakTransition True False s) = streak s"
  by (simp add: streakTransition_def)

lemma streakTransition_today_and_yesterday:
  "streak (streakTransition True True s) = streak s + 1"
  by (simp add: streakTransition_def Let_def)

lemma activities_afterDayOne:
  "activities afterDayOne = [fullActivity (eyeBreak (morning 0)) (morning 0)]"
  by (simp add: afterDayOne_def emptyTracker_def recordActivity_activities saveActivity_def)

lemma activities_afterDayTwoFirst:
  "activities afterDayTwoFirst =
     [fullActivity (eyeBreak (morning 0)) (morning 0),
      fullActivity (eyeBreak (morning 1)) (morning 1)]"
  by (simp add: afterDayTwoFirst_def activities_afterDayOne recordActivity_activities
      saveActivity_def)

lemma streak_afterDayOne: "streak (currentStats afterDayOne) = 1"
  unfolding afterDayOne_def recordActivity_streak
  by (simp add: emptyTracker_def defaultStats_def)

lemma streak_afterDayTwoFirst: "streak (currentStats afterDayTwoFirst) = 2"
  unfolding afterDayTwoFirst_def recordActivity_streak streak_afterDayOne activities_afterDayOne
  by (simp add: saveActivity_def fullActivity_def morning_def time_eval)

lemma streak_afterDayTwoSecond: "streak (currentStats afterDayTwoSecond) = 3"
  unfolding afterDayTwoSecond_def recordActivity_streak streak_afterDayTwoFirst
    activities_afterDayTwoFirst
  by (simp add: saveActivity_def fullActivity_def morning_def time_eval)

text \<open>
  Claim C4 does not hold of the code. A first break on day 0 starts the streak at 1; the
  first break on day 1 raises it to 2; a second break on day 1, one hour later, raises it
  to 3, because yesterday's activity makes every update of the day increment.
\<close>

theorem updateStreak_same_day_twice:
  "dayOf (morning 1 + 3600000) = dayOf (morning 1) \<and>
   streak (currentStats afterDayOne) = 1 \<and>
   streak (currentStats afterDayTwoFirst) = 2 \<and>
   streak (currentStats afterDayTwoSecond) = 3"
  using streak_afterDayOne streak_afterDayTwoFirst streak_afterDayTwoSecond
  by (simp add: morning_def time_eval)

section \<open>Levels and awards\<close>

lemma checkAchievementsLoop_level:
  "level (userStats (fst (checkAchievementsLoop as now (gs, new)))) = level (userStats gs)"
  by (induction as arbitrary: gs new) simp_all

lemma checkAchievements_level:
  "level (userStats (fst (checkAchievements now gs))) = level (userStats gs)"
  by (simp add: checkAchievements_def checkAchievementsLoop_level)

lemma updateDailyQuestProgress_level:
  "level (userStats (updateDailyQuestProgress e gs)) = level (userStats gs)"
  by (simp add: updateDailyQuestProgress_def Let_def split: option.splits prod.splits)

lemma checkAndHandleLevelUp_level:
  "level (fst (checkAndHandleLevelUp st)) = max (level st) (findCurrentLevel (xp st))"
  by (simp add: checkAndHandleLevelUp_def Let_def)

lemma calculateExerciseXP_pos: "5 \<le> calculateExerciseXP e"
  by (cases "ex_category e") (simp_all add: calculateExerciseXP_def baseXP_def orDefault_def)

lemma calculateBonusXP_nonneg: "0 \<le> calculateBonusXP now st"
  by (simp add: calculateBonusXP_def Let_def pos_imp_zdiv_nonneg_iff)

lemma xpEarned_award:
  "xpEarned (snd (awardExerciseCompletion en now e gs))
     = calculateExerciseXP e + calculateBonusXP now (userStats gs)"
  by (simp add: awardExerciseCompletion_def Let_def split: prod.splits)

text \<open>
  The level that a call leaves behind is fixed by the one level-up check, which sees the XP
  right after the exercise's own XP is added.
\<close>

lemma award_level:
  "level (userStats (fst (awardExerciseCompletion en now e gs))) =
     max (level (userStats gs))
         (findCurrentLevel (xp (userStats gs) + xpEarned (snd (awardExerciseCompletion en now e gs))))"
proof -
  let ?total = "calculateExerciseXP e + calculateBonusXP now (userStats gs)"
  let ?points = "calculateExercisePoints en e (userStats gs)"
  let ?st1 = "(userStats gs)\<lparr>xp := xp (userStats gs) + ?total,
                 totalPoints := totalPoints (userStats gs) + ?points,
                 availablePoints := availablePoints (userStats gs) + ?points\<rparr>"
  obtain st2 up where c: "checkAndHandleLevelUp ?st1 = (st2, up)"
    by (cases "checkAndHandleLevelUp ?st1")
  obtain gs3 new where a: "checkAchievements now (gs\<lparr>userStats := st2\<rparr>) = (gs3, new)"
    by (cases "checkAchievements now (gs\<lparr>userStats := st2\<rparr>)")
  have l2: "level st2 = max (level (userStats gs)) (findCurrentLevel (xp (userStats gs) + ?total))"
    using checkAndHandleLevelUp_level [of ?st1] unfolding c by simp
  have l3: "level (userStats gs3) = level st2"
    using checkAchievements_level [of now "gs\<lparr>userStats := st2\<rparr>"] unfolding a by simp
  have "fst (awardExerciseCompletion en now e gs) = updateDailyQuestProgress e gs3"
    by (simp add: awardExerciseCompletion_def Let_def c a)
  then show ?thesis
    by (simp add: updateDailyQuestProgress_level l3 l2 xpEarned_award)
qed

text \<open>
  Claim C5, as stated, fails. A user at 0 XP and level 1 with a 7-day streak completes the
  eye exercise at noon: 7 XP are earned, the level check leaves level 1, then the
  achievement \<open>streak_7\<close> adds 100 XP. The call returns with 107 XP stored next to level 1,
  and the lookup gives level 2 for 107 XP.
\<close>

theorem awardExerciseCompletion_stale_level:
  "level (userStats (weekStreakGamification (morning 0)))
     = findCurrentLevel (xp (userStats (weekStreakGamification (morning 0)))) \<and>
   xp (userStats (fst (awardExerciseCompletion True (morning 0 + 7200000) eye_exercise
        (weekStreakGamification (morning 0))))) = 107 \<and>
   level (userStats (fst (awardExerciseCompletion True (morning 0 + 7200000) eye_exercise
        (weekStreakGamification (morning 0))))) = 1 \<and>
   findCurrentLevel 107 = 2"
  by code_simp

text \<open>
  Claim C5, amended. After awardExerciseCompletion returns, the stored level is the larger
  of the level on entry and the lookup of the XP on entry plus the XP earned for the
  exercise (base and bonus). When the level on entry agrees with the lookup of the XP on
  entry, the stored level is the lookup of that sum; it is the lookup of the final XP
  whenever the call added no achievement reward and no quest XP.
\<close>

theorem awardExerciseCompletion_level:
  "level (userStats (fst (awardExerciseCompletion en now e gs))) =
     max (level (userStats gs))
         (findCurrentLevel (xp (userStats gs)
            + xpEarned (snd (awardExerciseCompletion en now e gs)))) \<and>
   (level (userStats gs) = findCurrentLevel (xp (userStats gs)) \<longrightarrow>
      level (userStats (fst (awardExerciseCompletion en now e gs))) =
        findCurrentLevel (xp (userStats gs)
            + xpEarned (snd (awardExerciseCompletion en now e gs))) \<and>
      (xp (userStats (fst (awardExerciseCompletion en now e gs))) =
         xp (userStats gs) + xpEarned (snd (awardExerciseCompletion en now e gs)) \<longrightarrow>
       level (userStats (fst (awardExerciseCompletion en now e gs))) =
         findCurrentLevel (xp (userStats (fst (awardExerciseCompletion en now e gs))))))"
proof -
  let ?earned = "xpEarned (snd (awardExerciseCompletion en now e gs))"
  have "0 \<le> ?earned"
    using calculateExerciseXP_pos [of e] calculateBonusXP_nonneg [of now "userStats gs"]
    by (simp add: xpEarned_award)
  then have "findCurrentLevel (xp (userStats gs))
               \<le> findCurrentLevel (xp (userStats gs) + ?earned)"
    by (intro findCurrentLevel_mono) simp
  then show ?thesis
    using award_level [of en now e gs] by (auto simp: max_def)
qed

theorem awardExerciseCompletion_level_witness:
  "level (userStats (freshGamification (morning 0)))
     = findCurrentLevel (xp (userStats (freshGamification (morning 0)))) \<and>
   xp (userStats (fst (awardExerciseCompletion True (morning 0) eye_exercise
        (freshGamification (morning 0))))) =
     xp (userStats (freshGamification (morning 0)))
       + xpEarned (snd (awardExerciseCompletion True (morning 0) eye_exercise
            (freshGamification (morning 0)))) \<and>
   level (userStats (fst (awardExerciseCompletion True (morning 0) eye_exercise
        (freshGamification (morning 0))))) =
     findCurrentLevel (xp (userStats (fst (awardExerciseCompletion True (morning 0) eye_exercise
        (freshGamification (morning 0))))))"
proof -
  have h1: "level (userStats (freshGamification (morning 0)))
     = findCurrentLevel (xp (userStats (freshGamification (morning 0))))"
    by code_simp
  have h2: "xp (userStats (fst (awardExerciseCompletion True (morning 0) eye_exercise
        (freshGamification (morning 0))))) =
     xp (userStats (freshGamification (morning 0)))
       + xpEarned (snd (awardExerciseCompletion True (morning 0) eye_exercise
            (freshGamification (morning 0))))"
    by code_simp
  from awardExerciseCompletion_level
         [of True "morning 0" eye_exercise "freshGamification (morning 0)"] h1 h2
  show ?thesis by blast
qed

section \<open>Exercise sessions\<close>

lemma stepsLoop_stopped:
  "k < length ss \<Longrightarrow> evs (i + k) = Responded (Some ''Stop Exercise'')
     \<Longrightarrow> \<not> stepsLoop ss i n evs"
proof (induction ss arbitrary: i k)
  case Nil
  then show ?case by simp
next
  case (Cons s ss)
  show ?case
  proof (cases k)
    case 0
    with Cons.prems show ?thesis by (simp add: executeStep_def)
  next
    case (Suc j)
    with Cons.prems have "j < length ss" "evs (i + 1 + j) = Responded (Some ''Stop Exercise'')"
      by simp_all
    then have "\<not> stepsLoop ss (i + 1) n evs" by (rule Cons.IH)
    then show ?thesis by simp
  qed
qed

lemma stepsLoop_completed:
  "(\<forall>k < length ss. evs (i + k) \<noteq> Responded (Some ''Stop Exercise''))
     \<Longrightarrow> stepsLoop ss i n evs"
proof (induction ss arbitrary: i)
  case Nil
  then show ?case by simp
next
  case (Cons s ss)
  from Cons.prems have "evs (i + 0) \<noteq> Responded (Some ''Stop Exercise'')" by blast
  then have first: "executeStep s (i + 1) n (evs i)"
    by (cases "evs i") (simp_all add: executeStep_def)
  have "\<forall>k < length ss. evs (i + 1 + k) \<noteq> Responded (Some ''Stop Exercise'')"
  proof (intro allI impI)
    fix k assume "k < length ss"
    then have "Suc k < length (s # ss)" by simp
    with Cons.prems have "evs (i + Suc k) \<noteq> Responded (Some ''Stop Exercise'')" by blast
    then show "evs (i + 1 + k) \<noteq> Responded (Some ''Stop Exercise'')" by simp
  qed
  then have "stepsLoop ss (i + 1) n evs" by (rule Cons.IH)
  with first show ?case by simp
qed

lemma handleExerciseCompletion_tracker:
  assumes "healthTracker svc = Some tr"
  shows "healthTracker (handleExerciseCompletion e started ended en svc) =
           Some (recordActivity
                   \<lparr>p_exerciseId = Some (ex_id e), p_exerciseName = Some (ex_name e),
                    p_duration = Some (ex_duration e), p_caloriesBurned = Some (caloriesBurn e),
                    p_startedAt = Some started, p_completedAt = Some ended\<rparr> ended tr)"
  using assms by (simp add: handleExerciseCompletion_def Let_def split: option.splits)

text \<open>
  Claim C6. In a session that the user has begun, on a service with its health tracker
  attached: a stop at any step leaves both the tracker and the gamification state as they
  were (no activity, no XP); with no stop, the tracker's log is the old log with exactly one
  activity saved onto it, whose duration is the exercise's declared duration, whatever the
  start and end instants of the session are.
\<close>

theorem executeExercise_session:
  assumes "startResponse inp = Some ''Begin''" and "healthTracker svc = Some tr"
  shows "((\<exists>k < length (steps e). stepEvents inp k = Responded (Some ''Stop Exercise''))
           \<longrightarrow> executeExercise e inp svc = (svc, Cancelled)) \<and>
         ((\<forall>k < length (steps e). stepEvents inp k \<noteq> Responded (Some ''Stop Exercise''))
           \<longrightarrow> (\<exists>tr' a. healthTracker (fst (executeExercise e inp svc)) = Some tr' \<and>
                  activities tr' = saveActivity (activities tr) a \<and>
                  (length (activities tr) < 1000 \<longrightarrow> activities tr' = activities tr @ [a]) \<and>
                  duration a = ex_duration e \<and> exerciseId a = ex_id e \<and>
                  startedAt a = startTime inp \<and> completedAt a = endTime inp))"
proof (intro conjI impI)
  assume "\<exists>k < length (steps e). stepEvents inp k = Responded (Some ''Stop Exercise'')"
  then obtain k where "k < length (steps e)"
    and "stepEvents inp (0 + k) = Responded (Some ''Stop Exercise'')" by auto
  then have "\<not> stepsLoop (steps e) 0 (length (steps e)) (stepEvents inp)"
    by (rule stepsLoop_stopped)
  with assms(1) show "executeExercise e inp svc = (svc, Cancelled)"
    by (simp add: executeExercise_def)
next
  let ?p = "\<lparr>p_exerciseId = Some (ex_id e), p_exerciseName = Some (ex_name e),
             p_duration = Some (ex_duration e), p_caloriesBurned = Some (caloriesBurn e),
             p_startedAt = Some (startTime inp), p_completedAt = Some (endTime inp)\<rparr>"
  let ?a = "fullActivity ?p (endTime inp)"
  let ?tr' = "recordActivity ?p (endTime inp) tr"
  assume "\<forall>k < length (steps e). stepEvents inp k \<noteq> Responded (Some ''Stop Exercise'')"
  then have "stepsLoop (steps e) 0 (length (steps e)) (stepEvents inp)"
    by (intro stepsLoop_completed) simp
  with assms(1) have "fst (executeExercise e inp svc) =
      handleExerciseCompletion e (startTime inp) (endTime inp) (gamificationEnabled inp) svc"
    by (simp add: executeExercise_def)
  then have t: "healthTracker (fst (executeExercise e inp svc)) = Some ?tr'"
    using handleExerciseCompletion_tracker [OF assms(2)] by simp
  have s: "activities ?tr' = saveActivity (activities tr) ?a"
    by (rule recordActivity_activities)
  have app: "length (activities tr) < 1000 \<longrightarrow> activities ?tr' = activities tr @ [?a]"
    unfolding s by (simp add: saveActivity_def)
  have f: "duration ?a = ex_duration e" "exerciseId ?a = ex_id e"
    "startedAt ?a = startTime inp" "completedAt ?a = endTime inp"
    by (simp_all add: fullActivity_def orDefault_def)
  from t s app f
  show "\<exists>tr' a. healthTracker (fst (executeExercise e inp svc)) = Some tr' \<and>
                  activities tr' = saveActivity (activities tr) a \<and>
                  (length (activities tr) < 1000 \<longrightarrow> activities tr' = activities tr @ [a]) \<and>
                  duration a = ex_duration e \<and> exerciseId a = ex_id e \<and>
                  startedAt a = startTime inp \<and> completedAt a = endTime inp"
    by blast
qed


theorem executeExercise_session_witness:
  "startResponse stoppedSession = Some ''Begin'' \<and>
   healthTracker wiredService = Some \<lparr>activities = [], currentStats = defaultStats\<rparr> \<and>
   1 < length (steps eye_exercise) \<and>
   stepEvents stoppedSession 1 = Responded (Some ''Stop Exercise'') \<and>
   executeExercise eye_exercise stoppedSession wiredService = (wiredService, Cancelled) \<and>
   startResponse skippedSession = Some ''Begin'' \<and>
   map (stepEvents skippedSession) [0..<length (steps eye_exercise)]
     = [Responded (Some ''Skip''), Responded (Some ''Skip''), Responded (Some ''Skip'')] \<and>
   (\<exists>tr' a. healthTracker (fst (executeExercise eye_exercise skippedSession wiredService)) = Some tr' \<and>
       activities tr' = [a] \<and> duration a = 60 \<and>
       completedAt a - startedAt a = 5000)"
proof -
  have b1: "startResponse stoppedSession = Some ''Begin''"
    and b2: "startResponse skippedSession = Some ''Begin''"
    by (simp_all add: stoppedSession_def skippedSession_def)
  have w: "healthTracker wiredService = Some \<lparr>activities = [], currentStats = defaultStats\<rparr>"
    by (simp add: wiredService_def)
  have n: "1 < length (steps eye_exercise)"
    by (simp add: eye_exercise_def)
  have st: "stepEvents stoppedSession 1 = Responded (Some ''Stop Exercise'')"
    by (simp add: stoppedSession_def)
  have sk: "\<forall>k < length (steps eye_exercise).
       stepEvents skippedSession k \<noteq> Responded (Some ''Stop Exercise'')"
    by (simp add: skippedSession_def)
  have d: "ex_duration eye_exercise = 60"
    by (simp add: eye_exercise_def)
  have t: "endTime skippedSession - startTime skippedSession = 5000"
    by (simp add: skippedSession_def)
  from executeExercise_session [OF b1 w, of eye_exercise] n st
  have stopped: "executeExercise eye_exercise stoppedSession wiredService = (wiredService, Cancelled)"
    by blast
  from executeExercise_session [OF b2 w, of eye_exercise] sk
  obtain tr' a where "healthTracker (fst (executeExercise eye_exercise skippedSession wiredService)) = Some tr'"
    and "length (activities \<lparr>activities = [], currentStats = defaultStats\<rparr>) < 1000
           \<longrightarrow> activities tr' = activities \<lparr>activities = [], currentStats = defaultStats\<rparr> @ [a]"
    and "duration a = ex_duration eye_exercise"
    and "startedAt a = startTime skippedSession" and "completedAt a = endTime skippedSession"
    by blast
  then have "healthTracker (fst (executeExercise eye_exercise skippedSession wiredService)) = Some tr' \<and>
       activities tr' = [a] \<and> duration a = 60 \<and> completedAt a - startedAt a = 5000"
    using d t by simp
  moreover have "map (stepEvents skippedSession) [0..<length (steps eye_exercise)]
     = [Responded (Some ''Skip''), Responded (Some ''Skip''), Responded (Some ''Skip'')]"
    by (simp add: skippedSession_def eye_exercise_def upt_rec)
  ultimately show ?thesis using b1 b2 w n st stopped by blast
qed

section \<open>Reminder decisions\<close>

lemma checkAndNotify_suppressed:
  assumes "isPaused st (env_now env) \<or> isDoNotDisturbTime cfg (env_now env) = Inr True \<or>
           env_debugging env \<or> codeInputFrequency st > 50"
    and "checkAndNotify cfg env st = Inr (st', effs)"
  shows "effs = []"
  using assms
  by (auto simp: checkAndNotify_def shouldShowReminder_def getReminderContext_def Let_def
      split: if_splits sum.splits)

lemma commitPath_prompts:
  "\<exists>rest. snd (commitPath m now r st) = PostCommitPrompt (detectCommitEmotion m) # rest"
  by (simp add: commitPath_def notifyCommit_def showPostCommitReminder_def Let_def
      split: option.splits)

text \<open>
  Claim C3 does not hold of the code. With reminders paused, the periodic tick shows
  nothing even after 200 minutes of work; a commit notification, five seconds later,
  shows the post-commit prompt all the same: that path consults none of the suppression
  conditions.
\<close>

theorem commitPath_ignores_pause:
  "isPaused (pause idleState) (atClock 14 0) \<and>
   checkAndNotify defaultConfig (quietEnv (atClock 14 0))
       ((pause idleState)\<lparr>consecutiveWorkMinutes := 200\<rparr>)
     = Inr ((pause idleState)\<lparr>consecutiveWorkMinutes := 200\<rparr>, []) \<and>
   snd (commitPath ''Fix login bug'' (atClock 14 0) None (pause idleState))
     = [PostCommitPrompt Frustration]"
  by code_simp

lemma shouldShowReminder_smart:
  assumes "cfg_frequency cfg = ''smart''" and "\<not> ctx_isDebugging ctx"
    and "ctx_codeInputFrequency ctx \<le> 50"
  shows "shouldShowReminder cfg ctx now chance =
           (if ctx_consecutiveWorkMinutes ctx \<ge> 90 then True
            else if ctx_consecutiveWorkMinutes ctx \<ge> 45 \<and> ctx_todayBreakCount ctx < 8
              then chance > 1 / 2
            else (\<exists>t. ctx_lastCommitTime ctx = Some t \<and> 60000 < now - t \<and> now - t < 300000))"
  using assms by (auto simp: shouldShowReminder_def Let_def split: option.splits)

lemma shouldShowReminder_fixed:
  assumes "cfg_frequency cfg \<noteq> ''smart''" and "\<not> ctx_isDebugging ctx"
    and "ctx_codeInputFrequency ctx \<le> 50"
  shows "shouldShowReminder cfg ctx now chance =
           js_ge (Some (ctx_consecutiveWorkMinutes ctx))
                 (parseInt (js_replace_first ''min'' [] (cfg_frequency cfg)))"
  using assms by (simp add: shouldShowReminder_def Let_def)

text \<open>
  Claim C2, as stated, fails in two places. After 50 minutes of work with no break taken
  and a commit two minutes ago, a draw of 0.3 ends the decision with "no": the commit is
  looked at only when the 45-minute rule does not apply. And a commit exactly one minute
  ago does not fire: the window is open at both ends.
\<close>

theorem shouldShowReminder_commit_window:
  "\<not> shouldShowReminder defaultConfig (workContext 50 0 (Some (atClock 13 58))) (atClock 14 0) (3 / 10) \<and>
   atClock 14 0 - atClock 13 58 = 2 * msPerMinute \<and>
   \<not> shouldShowReminder defaultConfig (workContext 10 0 (Some (atClock 13 59))) (atClock 14 0) (3 / 10) \<and>
   atClock 14 0 - atClock 13 59 = 1 * msPerMinute"
  by (simp add: shouldShowReminder_def defaultConfig_def workContext_def atClock_def
      msPerMinute_def)

text \<open>
  Claim C2, amended. With no debugger attached and an input intensity of at most 50: in
  smart mode, 90 minutes of work or more always fire, with strong severity from 120 minutes
  and standard severity below; from 45 to under 60 minutes with fewer than 8 breaks today
  the result is the random draw (fire when it exceeds 0.5), with light severity; under 45
  minutes, or under 90 minutes with 8 breaks or more, the reminder fires exactly when a
  commit lies more than one and less than five minutes back. In a fixed mode whose setting
  parses to a number of minutes, the reminder fires exactly when the minutes worked have
  reached it.
\<close>

theorem shouldShowReminder_decision:
  assumes "\<not> ctx_isDebugging ctx" and "ctx_codeInputFrequency ctx \<le> 50"
  shows "(cfg_frequency cfg = ''smart'' \<longrightarrow>
           (ctx_consecutiveWorkMinutes ctx \<ge> 120 \<longrightarrow>
              shouldShowReminder cfg ctx now chance \<and> reminderSeverity ctx = Strong) \<and>
           (90 \<le> ctx_consecutiveWorkMinutes ctx \<and> ctx_consecutiveWorkMinutes ctx < 120 \<longrightarrow>
              shouldShowReminder cfg ctx now chance \<and> reminderSeverity ctx = Standard) \<and>
           (45 \<le> ctx_consecutiveWorkMinutes ctx \<and> ctx_consecutiveWorkMinutes ctx < 60 \<and>
            ctx_todayBreakCount ctx < 8 \<longrightarrow>
              (shouldShowReminder cfg ctx now chance \<longleftrightarrow> chance > 1 / 2) \<and>
              reminderSeverity ctx = Light) \<and>
           (ctx_consecutiveWorkMinutes ctx < 45 \<or>
            (ctx_consecutiveWorkMinutes ctx < 90 \<and> ctx_todayBreakCount ctx \<ge> 8) \<longrightarrow>
              (shouldShowReminder cfg ctx now chance \<longleftrightarrow>
                 (\<exists>t. ctx_lastCommitTime ctx = Some t \<and>
                      1 * msPerMinute < now - t \<and> now - t < 5 * msPerMinute)))) \<and>
         (cfg_frequency cfg \<noteq> ''smart'' \<longrightarrow>
           (\<forall>n. parseInt (js_replace_first ''min'' [] (cfg_frequency cfg)) = Some n \<longrightarrow>
              (shouldShowReminder cfg ctx now chance \<longleftrightarrow> ctx_consecutiveWorkMinutes ctx \<ge> n)))"
proof -
  have strong: "shouldShowReminder cfg ctx now chance \<and> reminderSeverity ctx = Strong"
    if "cfg_frequency cfg = ''smart''" and "ctx_consecutiveWorkMinutes ctx \<ge> 120"
    using that assms by (simp add: shouldShowReminder_smart reminderSeverity_def)
  have standard: "shouldShowReminder cfg ctx now chance \<and> reminderSeverity ctx = Standard"
    if "cfg_frequency cfg = ''smart''"
      and "90 \<le> ctx_consecutiveWorkMinutes ctx \<and> ctx_consecutiveWorkMinutes ctx < 120"
    using that assms by (simp add: shouldShowReminder_smart reminderSeverity_def)
  have light: "(shouldShowReminder cfg ctx now chance \<longleftrightarrow> chance > 1 / 2) \<and>
               reminderSeverity ctx = Light"
    if "cfg_frequency cfg = ''smart''"
      and "45 \<le> ctx_consecutiveWorkMinutes ctx \<and> ctx_consecutiveWorkMinutes ctx < 60 \<and>
           ctx_todayBreakCount ctx < 8"
    using that assms by (simp add: shouldShowReminder_smart reminderSeverity_def)
  have commit: "shouldShowReminder cfg ctx now chance \<longleftrightarrow>
                  (\<exists>t. ctx_lastCommitTime ctx = Some t \<and>
                       1 * msPerMinute < now - t \<and> now - t < 5 * msPerMinute)"
    if "cfg_frequency cfg = ''smart''"
      and "ctx_consecutiveWorkMinutes ctx < 45 \<or>
           (ctx_consecutiveWorkMinutes ctx < 90 \<and> ctx_todayBreakCount ctx \<ge> 8)"
    using that assms by (auto simp: shouldShowReminder_smart msPerMinute_def)
  have fixed: "shouldShowReminder cfg ctx now chance \<longleftrightarrow> ctx_consecutiveWorkMinutes ctx \<ge> n"
    if "cfg_frequency cfg \<noteq> ''smart''"
      and "parseInt (js_replace_first ''min'' [] (cfg_frequency cfg)) = Some n" for n
    using that assms by (simp add: shouldShowReminder_fixed js_ge_def)
  from strong standard light commit fixed show ?thesis by blast
qed


theorem shouldShowReminder_decision_witness:
  "shouldShowReminder defaultConfig (workContext 130 0 None) (atClock 14 0) (3 / 4) \<and>
   reminderSeverity (workContext 130 0 None) = Strong \<and>
   shouldShowReminder defaultConfig (workContext 100 0 None) (atClock 14 0) (3 / 4) \<and>
   reminderSeverity (workContext 100 0 None) = Standard \<and>
   shouldShowReminder defaultConfig (workContext 50 0 None) (atClock 14 0) (3 / 4) \<and>
   reminderSeverity (workContext 50 0 None) = Light \<and>
   shouldShowReminder defaultConfig (workContext 10 0 (Some (atClock 13 58))) (atClock 14 0) (3 / 4) \<and>
   shouldShowReminder (defaultConfig\<lparr>cfg_frequency := ''30min''\<rparr>) (workContext 30 0 None)
     (atClock 14 0) (3 / 4)"
proof -
  have q: "\<not> ctx_isDebugging (workContext m b c)" "ctx_codeInputFrequency (workContext m b c) \<le> 50"
    for m b c by (simp_all add: workContext_def)
  have sm: "cfg_frequency defaultConfig = ''smart''"
    by (simp add: defaultConfig_def)
  have fx: "cfg_frequency (defaultConfig\<lparr>cfg_frequency := ''30min''\<rparr>) \<noteq> ''smart''"
    by simp
  have p: "parseInt (js_replace_first ''min'' []
             (cfg_frequency (defaultConfig\<lparr>cfg_frequency := ''30min''\<rparr>))) = Some 30"
    by code_simp
  have m1: "ctx_consecutiveWorkMinutes (workContext 130 0 None) \<ge> 120"
    and m2: "90 \<le> ctx_consecutiveWorkMinutes (workContext 100 0 None) \<and>
             ctx_consecutiveWorkMinutes (workContext 100 0 None) < 120"
    and m3: "45 \<le> ctx_consecutiveWorkMinutes (workContext 50 0 None) \<and>
             ctx_consecutiveWorkMinutes (workContext 50 0 None) < 60 \<and>
             ctx_todayBreakCount (workContext 50 0 None) < 8"
    and m4: "ctx_consecutiveWorkMinutes (workContext 10 0 (Some (atClock 13 58))) < 45"
    and m5: "ctx_consecutiveWorkMinutes (workContext 30 0 None) \<ge> 30"
    by (simp_all add: workContext_def)
  have c: "\<exists>t. ctx_lastCommitTime (workContext 10 0 (Some (atClock 13 58))) = Some t \<and>
             1 * msPerMinute < atClock 14 0 - t \<and> atClock 14 0 - t < 5 * msPerMinute"
    by (simp add: workContext_def atClock_def msPerMinute_def)
  have d: "(3 / 4 :: rat) > 1 / 2" by simp
  have "shouldShowReminder defaultConfig (workContext 130 0 None) (atClock 14 0) (3 / 4) \<and>
        reminderSeverity (workContext 130 0 None) = Strong"
    using shouldShowReminder_decision [OF q, of defaultConfig 130 0 None "atClock 14 0" "3 / 4"]
      sm m1 by blast
  moreover have "shouldShowReminder defaultConfig (workContext 100 0 None) (atClock 14 0) (3 / 4) \<and>
        reminderSeverity (workContext 100 0 None) = Standard"
    using shouldShowReminder_decision [OF q, of defaultConfig 100 0 None "atClock 14 0" "3 / 4"]
      sm m2 by blast
  moreover have "shouldShowReminder defaultConfig (workContext 50 0 None) (atClock 14 0) (3 / 4) \<and>
        reminderSeverity (workContext 50 0 None) = Light"
    using shouldShowReminder_decision [OF q, of defaultConfig 50 0 None "atClock 14 0" "3 / 4"]
      sm m3 d by blast
  moreover have "shouldShowReminder defaultConfig (workContext 10 0 (Some (atClock 13 58)))
        (atClock 14 0) (3 / 4)"
    using shouldShowReminder_decision
            [OF q, of defaultConfig 10 0 "Some (atClock 13 58)" "atClock 14 0" "3 / 4"]
      sm m4 c by blast
  moreover have "shouldShowReminder (defaultConfig\<lparr>cfg_frequency := ''30min''\<rparr>)
        (workContext 30 0 None) (atClock 14 0) (3 / 4)"
    using shouldShowReminder_decision
            [OF q, of "defaultConfig\<lparr>cfg_frequency := ''30min''\<rparr>" 30 0 None "atClock 14 0" "3 / 4"]
      fx p m5 by blast
  ultimately show ?thesis by blast
qed


section \<open>Do Not Disturb\<close>

lemma rangeContains_crossing:
  assumes "rangeMinutes r = Inr (Some s, Some e)" and "s > e"
  shows "rangeContains cur r = Inr False"
  using assms by (simp add: rangeContains_def js_ge_def js_le_def)

lemma dndLoop_skip:
  assumes "rangeContains cur r = Inr False"
  shows "dndLoop cur (before @ r # after) = dndLoop cur (before @ after)"
  using assms by (induction before) (simp_all split: sum.splits)

text \<open>
  A range written \<open>HH:MM-HH:MM\<close> with eight decimal digits parses to its two minutes
  of the day, so the hypothesis of the theorem below covers every such range whose start
  lies after its end.
\<close>

lemma isDigit_chars:
  assumes "isDigit c"
  shows "c \<noteq> CHR '':''" and "c \<noteq> CHR ''-''" and "\<not> isSpace c"
  using assms by (auto simp: isDigit_def isSpace_def)

lemma js_Number_two_digits:
  assumes "isDigit a" and "isDigit b"
  shows "js_Number [a, b] = Some (digitVal a * 10 + digitVal b)"
  using assms isDigit_chars(3) [of a] isDigit_chars(3) [of b]
  by (simp add: js_Number_def js_trim_def decimalVal_def)

lemma rangeMinutes_hhmm:
  assumes "isDigit a" and "isDigit b" and "isDigit c" and "isDigit d"
    and "isDigit e" and "isDigit f" and "isDigit g" and "isDigit h"
  shows "rangeMinutes [a, b, CHR '':'', c, d, CHR ''-'', e, f, CHR '':'', g, h] =
           Inr (Some ((digitVal a * 10 + digitVal b) * 60 + (digitVal c * 10 + digitVal d)),
                Some ((digitVal e * 10 + digitVal f) * 60 + (digitVal g * 10 + digitVal h)))"
proof -
  have sp: "js_split CHR ''-'' [a, b, CHR '':'', c, d, CHR ''-'', e, f, CHR '':'', g, h]
              = [[a, b, CHR '':'', c, d], [e, f, CHR '':'', g, h]]"
    using assms by (simp add: isDigit_chars(2))
  have c1: "js_split CHR '':'' [a, b, CHR '':'', c, d] = [[a, b], [c, d]]"
    using assms by (simp add: isDigit_chars(1))
  have c2: "js_split CHR '':'' [e, f, CHR '':'', g, h] = [[e, f], [g, h]]"
    using assms by (simp add: isDigit_chars(1))
  show ?thesis
    using assms
    by (simp add: rangeMinutes_def sp c1 c2 js_Number_two_digits elemAt_def js_add_def
        js_mul_def del: js_split.simps)
qed

lemma rangeMinutes_night: "rangeMinutes ''22:00-06:00'' = Inr (Some 1320, Some 360)"
  by code_simp

text \<open>
  Claim C10. A configured range whose start minute of the day lies strictly after its end
  minute (a range across midnight, such as 22:00-06:00) contains no minute of the day:
  alone it makes isDoNotDisturbTime answer "no" at every instant, and among other ranges
  it changes nothing in the answer.
\<close>

theorem isDoNotDisturbTime_crossing_midnight:
  assumes "rangeMinutes r = Inr (Some s, Some e)" and "s > e"
  shows "rangeContains cur r = Inr False \<and>
         isDoNotDisturbTime (cfg\<lparr>cfg_dndHours := [r]\<rparr>) now = Inr False \<and>
         isDoNotDisturbTime (cfg\<lparr>cfg_dndHours := before @ r # after\<rparr>) now
           = isDoNotDisturbTime (cfg\<lparr>cfg_dndHours := before @ after\<rparr>) now"
proof -
  have c: "rangeContains c r = Inr False" for c
    using assms by (rule rangeContains_crossing)
  have "isDoNotDisturbTime (cfg\<lparr>cfg_dndHours := [r]\<rparr>) now = Inr False"
    by (simp add: isDoNotDisturbTime_def c)
  moreover have "isDoNotDisturbTime (cfg\<lparr>cfg_dndHours := before @ r # after\<rparr>) now
           = isDoNotDisturbTime (cfg\<lparr>cfg_dndHours := before @ after\<rparr>) now"
    by (simp add: isDoNotDisturbTime_def Let_def dndLoop_skip [OF c])
  ultimately show ?thesis using c by blast
qed

theorem isDoNotDisturbTime_crossing_midnight_witness:
  "rangeMinutes ''22:00-06:00'' = Inr (Some 1320, Some 360) \<and> (1320 :: int) > 360 \<and>
   isDoNotDisturbTime (defaultConfig\<lparr>cfg_dndHours := [''22:00-06:00'']\<rparr>) (atClock 23 30)
     = Inr False \<and>
   isDoNotDisturbTime (defaultConfig\<lparr>cfg_dndHours := [''22:00-06:00'']\<rparr>) (atClock 3 0)
     = Inr False"
proof -
  have g: "(1320 :: int) > 360" by simp
  from isDoNotDisturbTime_crossing_midnight
         [OF rangeMinutes_night g, of _ defaultConfig "atClock 23 30"]
       isDoNotDisturbTime_crossing_midnight
         [OF rangeMinutes_night g, of _ defaultConfig "atClock 3 0"]
       rangeMinutes_night g
  show ?thesis by blast
qed

end
